theory Spec2Isabelle
  imports Main
begin

text \<open>
  copy-github-to-github mirrors the repositories of an organisation, or a single
  repository, from one GitHub host to another: it lists them, maps each to its
  place on the target, clones it and pushes it, once or every so often. This theory
  embeds the program (its latest source, the one with the flags \<^verbatim>\<open>-every\<close> and
  \<^verbatim>\<open>-print-systemd-unit\<close>) function by function, with everything outside the
  program (network, git, file system, signals and the library functions it calls)
  as an explicit parameter, and proves what the specification claims about it.
\<close>

section \<open>Go strings\<close>

text \<open>
  A Go \<^verbatim>\<open>string\<close> is a sequence of bytes; it is modelled as \<^typ>\<open>string\<close>
  (a list of 8-bit characters). The functions of package \<^verbatim>\<open>strings\<close> and
  \<^verbatim>\<open>path\<close> that the program calls are written out below. Every separator
  and cutset the program passes is the single ASCII byte \<^verbatim>\<open>/\<close>, for which the
  byte-wise reading agrees with Go's rune-wise one.
\<close>

definition upperLetters :: string where
  "upperLetters = ''ABCDEFGHIJKLMNOPQRSTUVWXYZ''"

definition lowerLetters :: string where
  "lowerLetters = ''abcdefghijklmnopqrstuvwxyz''"

definition digits :: string where
  "digits = ''0123456789''"

text \<open>\<^verbatim>\<open>strings.ToLower\<close> on ASCII: bytes outside \<^verbatim>\<open>A..Z\<close> are kept.\<close>

definition toLowerByte :: "char \<Rightarrow> char" where
  "toLowerByte c = (case map_of (zip upperLetters lowerLetters) c of Some l \<Rightarrow> l | None \<Rightarrow> c)"

definition ToLower :: "string \<Rightarrow> string" where
  "ToLower s = map toLowerByte s"

text \<open>\<^verbatim>\<open>strings.Trim(s, cutset)\<close>: leading and trailing bytes of the cutset removed.\<close>

definition TrimLeft :: "string \<Rightarrow> string \<Rightarrow> string" where
  "TrimLeft s cutset = dropWhile (\<lambda>c. c \<in> set cutset) s"

definition TrimRight :: "string \<Rightarrow> string \<Rightarrow> string" where
  "TrimRight s cutset = rev (dropWhile (\<lambda>c. c \<in> set cutset) (rev s))"

definition Trim :: "string \<Rightarrow> string \<Rightarrow> string" where
  "Trim s cutset = TrimRight (TrimLeft s cutset) cutset"

text \<open>
  \<^verbatim>\<open>strings.Split(s, sep)\<close> at a one-byte separator: the pieces between the
  separators, so the result is never empty and \<^verbatim>\<open>Split("", "/")\<close> is the
  one-element list holding the empty string.
\<close>

fun Split :: "string \<Rightarrow> char \<Rightarrow> string list" where
  "Split [] sep = [[]]"
| "Split (c # s) sep =
     (if c = sep then [] # Split s sep
      else (case Split s sep of [] \<Rightarrow> [[c]] | p # ps \<Rightarrow> (c # p) # ps))"

text \<open>\<^verbatim>\<open>strings.Join(elems, sep)\<close>.\<close>

fun Join :: "string list \<Rightarrow> string \<Rightarrow> string" where
  "Join [] sep = []"
| "Join [x] sep = x"
| "Join (x # y # ys) sep = x @ sep @ Join (y # ys) sep"

text \<open>\<^verbatim>\<open>strings.HasPrefix(s, prefix)\<close> and \<^verbatim>\<open>strings.Contains(s, substr)\<close>.\<close>

fun HasPrefix :: "string \<Rightarrow> string \<Rightarrow> bool" where
  "HasPrefix s [] = True"
| "HasPrefix [] (p # ps) = False"
| "HasPrefix (c # s) (p # ps) = (c = p \<and> HasPrefix s ps)"

fun Contains :: "string \<Rightarrow> string \<Rightarrow> bool" where
  "Contains [] substr = (substr = [])"
| "Contains (c # s) substr = (HasPrefix (c # s) substr \<or> Contains s substr)"

text \<open>
  \<^verbatim>\<open>strings.Replace(s, old, new, -1)\<close> for a non-empty \<^verbatim>\<open>old\<close>: every
  non-overlapping occurrence, found from the left, is replaced. The first argument
  of the helper counts the bytes of a matched occurrence still to be skipped.
\<close>

fun replaceFrom :: "nat \<Rightarrow> string \<Rightarrow> string \<Rightarrow> string \<Rightarrow> string" where
  "replaceFrom k [] old new = []"
| "replaceFrom (Suc k) (c # s) old new = replaceFrom k s old new"
| "replaceFrom 0 (c # s) old new =
     (if HasPrefix (c # s) old then new @ replaceFrom (length old - 1) s old new
      else c # replaceFrom 0 s old new)"

definition ReplaceAll :: "string \<Rightarrow> string \<Rightarrow> string \<Rightarrow> string" where
  "ReplaceAll s old new = replaceFrom 0 s old new"

text \<open>
  \<^verbatim>\<open>path.Split(p)\<close>: the path is cut right after its last slash; without a slash
  the directory is empty.
\<close>

definition path_Split :: "string \<Rightarrow> string \<times> string" where
  "path_Split p =
     (let file = rev (takeWhile (\<lambda>c. c \<noteq> CHR ''/'') (rev p))
      in (take (length p - length file) p, file))"

section \<open>Errors\<close>

text \<open>
  A Go \<^verbatim>\<open>error\<close> is a value with a message. \<^verbatim>\<open>fmt.Errorf("...: %w", err)\<close>
  wraps \<^verbatim>\<open>err\<close>: the message is the prefix followed by the message of
  \<^verbatim>\<open>err\<close>, and \<^verbatim>\<open>errors.Is\<close> looks through the wrapping.
  \<^verbatim>\<open>git.NoErrAlreadyUpToDate\<close> is the sentinel of go-git; every other error of a
  library is an \<open>ErrorString\<close> with its message.
\<close>

datatype error =
    NoErrAlreadyUpToDate
  | ErrorString string
  | Wrapped string error

fun Error :: "error \<Rightarrow> string" where
  "Error NoErrAlreadyUpToDate = ''already up-to-date''"
| "Error (ErrorString m) = m"
| "Error (Wrapped prefix e) = prefix @ Error e"

fun errors_Is :: "error \<Rightarrow> error \<Rightarrow> bool" where
  "errors_Is (Wrapped prefix e) target = (Wrapped prefix e = target \<or> errors_Is e target)"
| "errors_Is e target = (e = target)"

section \<open>URLs\<close>

text \<open>The struct \<^verbatim>\<open>url.URL\<close> of Go's standard library, with all its fields.\<close>

record Userinfo =
  username :: string
  password :: string
  passwordSet :: bool

record URL =
  Scheme :: string
  Opaque :: string
  User :: "Userinfo option"
  Host :: string
  Path :: string
  RawPath :: string
  OmitHost :: bool
  ForceQuery :: bool
  RawQuery :: string
  Fragment :: string
  RawFragment :: string

text \<open>The zero value \<^verbatim>\<open>url.URL{}\<close>: a struct literal sets the fields it names.\<close>

definition zeroURL :: URL where
  "zeroURL = \<lparr>Scheme = [], Opaque = [], User = None, Host = [], Path = [], RawPath = [],
     OmitHost = False, ForceQuery = False, RawQuery = [], Fragment = [], RawFragment = []\<rparr>"

text \<open>
  \<^verbatim>\<open>(*URL).Hostname\<close>: the host without a valid port, and without the square
  brackets of an IPv6 literal.
\<close>

definition validOptionalPort :: "string \<Rightarrow> bool" where
  "validOptionalPort port =
     (case port of [] \<Rightarrow> True
      | c # ds \<Rightarrow> c = CHR '':'' \<and> list_all (\<lambda>b. b \<in> set digits) ds)"

definition splitHostPort_host :: "string \<Rightarrow> string" where
  "splitHostPort_host hostPort =
     (let afterColon = rev (takeWhile (\<lambda>c. c \<noteq> CHR '':'') (rev hostPort));
          hasColon = (CHR '':'' \<in> set hostPort);
          colonPort = CHR '':'' # afterColon;
          host = (if hasColon \<and> validOptionalPort colonPort
                  then take (length hostPort - length colonPort) hostPort
                  else hostPort)
      in if HasPrefix host ''['' \<and> HasPrefix (rev host) '']''
         then butlast (tl host) else host)"

definition Hostname :: "URL \<Rightarrow> string" where
  "Hostname u = splitHostPort_host (Host u)"

subsection \<open>Parsing and printing, as the standard library does them\<close>

text \<open>
  \<^verbatim>\<open>url.Parse\<close> and \<^verbatim>\<open>(*URL).String\<close> belong to Go's standard library, not
  to the program. The program is verified for whatever these two functions do (they
  are fields of the \<open>world\<close> below); the definitions of this subsection follow
  package \<^verbatim>\<open>net/url\<close> of Go 1.21, the toolchain the repository builds with, and
  serve to run the program on concrete URLs. Error messages quote with
  \<^verbatim>\<open>strconv.Quote\<close>, written out here for printable ASCII.
\<close>

datatype encoding =
    encodePath
  | encodePathSegment
  | encodeHost
  | encodeZone
  | encodeUserPassword
  | encodeQueryComponent
  | encodeFragment

definition go_Quote :: "string \<Rightarrow> string" where
  "go_Quote s =
     [CHR 0x22]
     @ concat (map (\<lambda>c. if c = CHR 0x22 \<or> c = CHR 0x5C then [CHR 0x5C, c] else [c]) s)
     @ [CHR 0x22]"

definition ishex :: "char \<Rightarrow> bool" where
  "ishex c = (c \<in> set ''0123456789abcdefABCDEF'')"

definition unhex :: "char \<Rightarrow> nat" where
  "unhex c =
     (case map_of (zip ''0123456789abcdefABCDEF''
                       [0, 1, 2, 3, 4, 5, 6, 7, 8, 9, 10, 11, 12, 13, 14, 15, 10, 11, 12, 13, 14, 15]) c of
        Some n \<Rightarrow> n | None \<Rightarrow> 0)"

definition byteOf :: "nat \<Rightarrow> char" where
  "byteOf n = Char (odd n) (odd (n div 2)) (odd (n div 4)) (odd (n div 8))
                   (odd (n div 16)) (odd (n div 32)) (odd (n div 64)) (odd (n div 128))"

definition upperhex :: string where
  "upperhex = ''0123456789ABCDEF''"

definition shouldEscape :: "char \<Rightarrow> encoding \<Rightarrow> bool" where
  "shouldEscape c mode =
     (if c \<in> set (lowerLetters @ upperLetters @ digits) then False
      else if (mode = encodeHost \<or> mode = encodeZone)
              \<and> c \<in> set (''!$&()*+,;=:[]<>'' @ [CHR 0x27, CHR 0x22]) then False
      else if c \<in> set ''-_.~'' then False
      else if c \<in> set ''$&+,/:;=?@'' \<and> mode = encodePath then c = CHR ''?''
      else if c \<in> set ''$&+,/:;=?@'' \<and> mode = encodePathSegment then c \<in> set ''/;,?''
      else if c \<in> set ''$&+,/:;=?@'' \<and> mode = encodeUserPassword then c \<in> set ''@/?:''
      else if c \<in> set ''$&+,/:;=?@'' \<and> mode = encodeQueryComponent then True
      else if c \<in> set ''$&+,/:;=?@'' \<and> mode = encodeFragment then False
      else if mode = encodeFragment \<and> c \<in> set ''!()*'' then False
      else True)"

definition EscapeError :: "string \<Rightarrow> error" where
  "EscapeError s = ErrorString (''invalid URL escape '' @ go_Quote s)"

definition InvalidHostError :: "string \<Rightarrow> error" where
  "InvalidHostError s = ErrorString (''invalid character '' @ go_Quote s @ '' in host name'')"

fun unescape :: "string \<Rightarrow> encoding \<Rightarrow> error + string" where
  "unescape [] mode = Inr []"
| "unescape (c # s) mode =
     (if c = CHR ''%'' then
        (case s of
           a # b # rest \<Rightarrow>
             if \<not> ishex a \<or> \<not> ishex b then Inl (EscapeError [c, a, b])
             else if mode = encodeHost \<and> unhex a < 8 \<and> [c, a, b] \<noteq> ''%25''
             then Inl (EscapeError [c, a, b])
             else if mode = encodeZone \<and> [c, a, b] \<noteq> ''%25''
                     \<and> byteOf (unhex a * 16 + unhex b) \<noteq> CHR '' ''
                     \<and> shouldEscape (byteOf (unhex a * 16 + unhex b)) encodeHost
             then Inl (EscapeError [c, a, b])
             else (case unescape rest mode of
                     Inl err \<Rightarrow> Inl err
                   | Inr t \<Rightarrow> Inr (byteOf (unhex a * 16 + unhex b) # t))
         | _ \<Rightarrow> Inl (EscapeError (c # s)))
      else if (mode = encodeHost \<or> mode = encodeZone) \<and> \<not> digit7 c \<and> shouldEscape c encodeHost
      then Inl (InvalidHostError [c])
      else (case unescape s mode of
              Inl err \<Rightarrow> Inl err
            | Inr t \<Rightarrow> Inr ((if c = CHR ''+'' \<and> mode = encodeQueryComponent then CHR '' '' else c) # t)))"

fun escape :: "string \<Rightarrow> encoding \<Rightarrow> string" where
  "escape [] mode = []"
| "escape (c # s) mode =
     (if shouldEscape c mode
      then (if c = CHR '' '' \<and> mode = encodeQueryComponent then CHR ''+'' # escape s mode
            else CHR ''%'' # upperhex ! ((of_char c :: nat) div 16)
                   # upperhex ! ((of_char c :: nat) mod 16) # escape s mode)
      else c # escape s mode)"

definition validEncoded :: "string \<Rightarrow> encoding \<Rightarrow> bool" where
  "validEncoded s mode =
     list_all (\<lambda>c. c \<in> set (''!$&()*+,;=:@[]%'' @ [CHR 0x27]) \<or> \<not> shouldEscape c mode) s"

definition validUserinfo :: "string \<Rightarrow> bool" where
  "validUserinfo s =
     list_all (\<lambda>r. r \<in> set (upperLetters @ lowerLetters @ digits
                              @ ''-._:~!$&()*+,;=%@'' @ [CHR 0x27])) s"

definition stringContainsCTLByte :: "string \<Rightarrow> bool" where
  "stringContainsCTLByte s =
     list_ex (\<lambda>b. (\<not> digit7 b \<and> \<not> digit6 b \<and> \<not> digit5 b) \<or> b = CHR 0x7F) s"

text \<open>
  \<^verbatim>\<open>strings.Cut\<close> at a one-byte separator, the text after the last one, and
  \<^verbatim>\<open>strings.Index\<close>.
\<close>

definition Cut :: "string \<Rightarrow> char \<Rightarrow> string \<times> string \<times> bool" where
  "Cut s sep = (takeWhile (\<lambda>c. c \<noteq> sep) s, drop 1 (dropWhile (\<lambda>c. c \<noteq> sep) s), sep \<in> set s)"

definition afterLast :: "string \<Rightarrow> char \<Rightarrow> string" where
  "afterLast s sep = rev (takeWhile (\<lambda>c. c \<noteq> sep) (rev s))"

fun Index :: "string \<Rightarrow> string \<Rightarrow> nat option" where
  "Index [] substr = (if substr = [] then Some 0 else None)"
| "Index (c # s) substr =
     (if HasPrefix (c # s) substr then Some 0 else map_option Suc (Index s substr))"

fun getScheme_from :: "string \<Rightarrow> string \<Rightarrow> string \<Rightarrow> error + string \<times> string" where
  "getScheme_from rawURL seen [] = Inr ([], rawURL)"
| "getScheme_from rawURL seen (c # s) =
     (if c \<in> set (lowerLetters @ upperLetters) then getScheme_from rawURL (seen @ [c]) s
      else if c \<in> set (digits @ ''+-.'')
      then (if seen = [] then Inr ([], rawURL) else getScheme_from rawURL (seen @ [c]) s)
      else if c = CHR '':''
      then (if seen = [] then Inl (ErrorString ''missing protocol scheme'') else Inr (seen, s))
      else Inr ([], rawURL))"

definition getScheme :: "string \<Rightarrow> error + string \<times> string" where
  "getScheme rawURL = getScheme_from rawURL [] rawURL"

definition parseHost :: "string \<Rightarrow> error + string" where
  "parseHost host =
     (if HasPrefix host ''[''
      then (if CHR '']'' \<notin> set host then Inl (ErrorString ''missing ']' in host'')
            else if \<not> validOptionalPort (afterLast host CHR '']'')
            then Inl (ErrorString (''invalid port '' @ go_Quote (afterLast host CHR '']'')
                                    @ '' after host''))
            else
           (let i = length host - length (afterLast host CHR '']'') - 1 in
            case Index (take i host) ''%25'' of
              None \<Rightarrow> unescape host encodeHost
            | Some zone \<Rightarrow>
                (case unescape (take zone host) encodeHost of
                   Inl err \<Rightarrow> Inl err
                 | Inr host1 \<Rightarrow>
                (case unescape (take (i - zone) (drop zone host)) encodeZone of
                   Inl err \<Rightarrow> Inl err
                 | Inr host2 \<Rightarrow>
                (case unescape (drop i host) encodeHost of
                   Inl err \<Rightarrow> Inl err
                 | Inr host3 \<Rightarrow> Inr (host1 @ host2 @ host3))))))
      else if CHR '':'' \<in> set host \<and> \<not> validOptionalPort (CHR '':'' # afterLast host CHR '':'')
      then Inl (ErrorString (''invalid port '' @ go_Quote (CHR '':'' # afterLast host CHR '':'')
                              @ '' after host''))
      else unescape host encodeHost)"

definition parseUserinfo :: "string \<Rightarrow> error + Userinfo" where
  "parseUserinfo userinfo =
     (if \<not> validUserinfo userinfo then Inl (ErrorString ''net/url: invalid userinfo'')
      else if CHR '':'' \<notin> set userinfo
      then (case unescape userinfo encodeUserPassword of
              Inl err \<Rightarrow> Inl err
            | Inr n \<Rightarrow> Inr \<lparr>username = n, password = [], passwordSet = False\<rparr>)
      else (case unescape (fst (Cut userinfo CHR '':'')) encodeUserPassword of
              Inl err \<Rightarrow> Inl err
            | Inr n \<Rightarrow>
                (case unescape (fst (snd (Cut userinfo CHR '':''))) encodeUserPassword of
                   Inl err \<Rightarrow> Inl err
                 | Inr p \<Rightarrow> Inr \<lparr>username = n, password = p, passwordSet = True\<rparr>)))"

definition parseAuthority :: "string \<Rightarrow> error + Userinfo option \<times> string" where
  "parseAuthority authority =
     (if CHR ''@'' \<notin> set authority
      then (case parseHost authority of Inl err \<Rightarrow> Inl err | Inr h \<Rightarrow> Inr (None, h))
      else (case parseHost (afterLast authority CHR ''@'') of
              Inl err \<Rightarrow> Inl err
            | Inr h \<Rightarrow>
                (case parseUserinfo
                        (take (length authority - length (afterLast authority CHR ''@'') - 1)
                           authority) of
                   Inl err \<Rightarrow> Inl err
                 | Inr ui \<Rightarrow> Inr (Some ui, h))))"

definition setPath :: "URL \<Rightarrow> string \<Rightarrow> error + URL" where
  "setPath u p =
     (case unescape p encodePath of
        Inl err \<Rightarrow> Inl err
      | Inr path \<Rightarrow>
          Inr (u\<lparr>Path := path, RawPath := (if p = escape path encodePath then [] else p)\<rparr>))"

definition setFragment :: "URL \<Rightarrow> string \<Rightarrow> error + URL" where
  "setFragment u f =
     (case unescape f encodeFragment of
        Inl err \<Rightarrow> Inl err
      | Inr frag \<Rightarrow>
          Inr (u\<lparr>Fragment := frag,
                 RawFragment := (if f = escape frag encodeFragment then [] else f)\<rparr>))"

text \<open>The unexported \<^verbatim>\<open>parse(rawURL, viaRequest)\<close> at \<^verbatim>\<open>viaRequest = false\<close>.\<close>

definition parse :: "string \<Rightarrow> error + URL" where
  "parse rawURL =
     (if stringContainsCTLByte rawURL
      then Inl (ErrorString ''net/url: invalid control character in URL'')
      else if rawURL = ''*'' then Inr (zeroURL\<lparr>Path := ''*''\<rparr>)
      else
     (case getScheme rawURL of
        Inl err \<Rightarrow> Inl err
      | Inr (scheme, rest0) \<Rightarrow>
     (let forceQuery = (HasPrefix (rev rest0) ''?'' \<and> length (filter (\<lambda>c. c = CHR ''?'') rest0) = 1);
          rest = (if forceQuery then butlast rest0 else fst (Cut rest0 CHR ''?''));
          rawQuery = (if forceQuery then [] else fst (snd (Cut rest0 CHR ''?'')));
          u = zeroURL\<lparr>Scheme := ToLower scheme, ForceQuery := forceQuery, RawQuery := rawQuery\<rparr>
      in if \<not> HasPrefix rest ''/'' \<and> scheme \<noteq> [] then Inr (u\<lparr>Opaque := rest\<rparr>)
         else if \<not> HasPrefix rest ''/'' \<and> CHR '':'' \<in> set (fst (Cut rest CHR ''/''))
         then Inl (ErrorString ''first path segment in URL cannot contain colon'')
         else if (scheme \<noteq> [] \<or> \<not> HasPrefix rest ''///'') \<and> HasPrefix rest ''//''
         then (case parseAuthority (takeWhile (\<lambda>c. c \<noteq> CHR ''/'') (drop 2 rest)) of
                 Inl err \<Rightarrow> Inl err
               | Inr (user, host) \<Rightarrow>
                   setPath (u\<lparr>User := user, Host := host\<rparr>)
                     (dropWhile (\<lambda>c. c \<noteq> CHR ''/'') (drop 2 rest)))
         else setPath (u\<lparr>OmitHost := (scheme \<noteq> [] \<and> HasPrefix rest ''/'')\<rparr>) rest)))"

definition go_Parse :: "string \<Rightarrow> error + URL" where
  "go_Parse rawURL =
     (case parse (fst (Cut rawURL CHR ''#'')) of
        Inl err \<Rightarrow>
          Inl (Wrapped (''parse '' @ go_Quote (fst (Cut rawURL CHR ''#'')) @ '': '') err)
      | Inr u \<Rightarrow>
          if fst (snd (Cut rawURL CHR ''#'')) = [] then Inr u
          else (case setFragment u (fst (snd (Cut rawURL CHR ''#''))) of
                  Inl err \<Rightarrow> Inl (Wrapped (''parse '' @ go_Quote rawURL @ '': '') err)
                | Inr u' \<Rightarrow> Inr u'))"

definition EscapedPath :: "URL \<Rightarrow> string" where
  "EscapedPath u =
     (if RawPath u \<noteq> [] \<and> validEncoded (RawPath u) encodePath
         \<and> unescape (RawPath u) encodePath = Inr (Path u)
      then RawPath u
      else if Path u = ''*'' then ''*''
      else escape (Path u) encodePath)"

definition EscapedFragment :: "URL \<Rightarrow> string" where
  "EscapedFragment u =
     (if RawFragment u \<noteq> [] \<and> validEncoded (RawFragment u) encodeFragment
         \<and> unescape (RawFragment u) encodeFragment = Inr (Fragment u)
      then RawFragment u
      else escape (Fragment u) encodeFragment)"

definition Userinfo_String :: "Userinfo \<Rightarrow> string" where
  "Userinfo_String ui =
     escape (username ui) encodeUserPassword
     @ (if passwordSet ui then '':'' @ escape (password ui) encodeUserPassword else [])"

definition go_String :: "URL \<Rightarrow> string" where
  "go_String u =
     (let buf1 = (if Scheme u \<noteq> [] then Scheme u @ '':'' else []);
          buf2 =
            (if Opaque u \<noteq> [] then buf1 @ Opaque u
             else
            (let buf3 =
                   (if (Scheme u \<noteq> [] \<or> Host u \<noteq> [] \<or> User u \<noteq> None)
                       \<and> \<not> (OmitHost u \<and> Host u = [] \<and> User u = None)
                    then buf1
                      @ (if Host u \<noteq> [] \<or> Path u \<noteq> [] \<or> User u \<noteq> None then ''//'' else [])
                      @ (case User u of None \<Rightarrow> [] | Some ui \<Rightarrow> Userinfo_String ui @ ''@'')
                      @ (if Host u \<noteq> [] then escape (Host u) encodeHost else [])
                    else buf1);
                 path = EscapedPath u;
                 buf4 = (if path \<noteq> [] \<and> hd path \<noteq> CHR ''/'' \<and> Host u \<noteq> []
                         then buf3 @ ''/'' else buf3);
                 buf5 = (if buf4 = [] \<and> CHR '':'' \<in> set (fst (Cut path CHR ''/''))
                         then buf4 @ ''./'' else buf4)
             in buf5 @ path));
          buf6 = (if ForceQuery u \<or> RawQuery u \<noteq> [] then buf2 @ ''?'' @ RawQuery u else buf2)
      in if Fragment u \<noteq> [] then buf6 @ ''#'' @ EscapedFragment u else buf6)"

section \<open>The hosting API, git and the process environment\<close>

text \<open>
  The value type \<^verbatim>\<open>Repo\<close> of the program, and the parts of the go-github and go-git
  types that the program reads or fills in. A nil pointer field is \<open>None\<close>.
\<close>

record Repo =
  Name :: string
  URL :: string

record Repository =
  Name_ptr :: "string option"
  HTMLURL_ptr :: "string option"
  Description_ptr :: "string option"
  Visibility_ptr :: "string option"

definition GetName :: "Repository \<Rightarrow> string" where
  "GetName rr = (case Name_ptr rr of None \<Rightarrow> [] | Some n \<Rightarrow> n)"

definition GetHTMLURL :: "Repository \<Rightarrow> string" where
  "GetHTMLURL rr = (case HTMLURL_ptr rr of None \<Rightarrow> [] | Some n \<Rightarrow> n)"

record RepositoryListByOrgOptions =
  Sort :: string
  Direction :: string
  Page :: nat
  PerPage :: nat

record BasicAuth =
  Username :: string
  Password :: string

record CloneOptions =
  clone_URL :: string
  clone_Auth :: BasicAuth

record PushOptions =
  RemoteURL :: string
  push_Auth :: BasicAuth
  Force :: bool
  FollowTags :: bool

text \<open>
  A go-github client: the token it authenticates with and the endpoints it talks to,
  the defaults of \<^verbatim>\<open>github.NewClient\<close> or the two URLs given to
  \<^verbatim>\<open>WithEnterpriseURLs\<close>.
\<close>

datatype endpoints = DefaultEndpoints | EnterpriseURLs string string

record Client =
  authToken :: string
  endpoints :: endpoints

definition NewClient_WithAuthToken :: "string \<Rightarrow> Client" where
  "NewClient_WithAuthToken token = \<lparr>authToken = token, endpoints = DefaultEndpoints\<rparr>"

text \<open>
  What the program writes to standard output, one constructor for each print
  statement of \<^verbatim>\<open>main\<close> with the values it formats, and the blocking calls it makes
  to the outside. A run of the program is the list of these events in order
  (\<^verbatim>\<open>fs.PrintDefaults\<close> writes to standard error).
\<close>

datatype printed =
    Print string
  | Println string
  | ListingRepos string
  | FailedToList error
  | CopyingRepos nat
  | FailedToRewrite string error
  | Copying string string
  | FailedToCopy error
  | ProcessComplete int
  | ContextClosed
  | WaitComplete

datatype call =
    ListByOrg_call bool Client string RepositoryListByOrgOptions
  | MkdirTemp_call
  | PlainClone_call string CloneOptions
  | Create_call bool Client string Repository
  | Push_call string PushOptions
  | Wait_call int

datatype event = Stdout printed | Stderr_PrintDefaults | Call call

text \<open>
  Everything outside the program is a \<open>world\<close>: the library functions whose code is
  not the program's (\<^verbatim>\<open>url.Parse\<close>, \<^verbatim>\<open>(*URL).String\<close>, the quoting of
  \<^verbatim>\<open>%q\<close>, \<^verbatim>\<open>Duration.String\<close>, the check that
  \<^verbatim>\<open>WithEnterpriseURLs\<close> makes), the two embedded files, the answers of the
  hosting API, of git and of the file system, and the moment SIGINT is delivered.
  An answer may depend on when the call is made: each blocking call gets the number
  of events of the run so far. \<open>sigint w = Some k\<close> says that SIGINT arrives while
  the event of index \<open>k\<close> is under way; the goroutine of \<^verbatim>\<open>main\<close> then cancels the
  context, so the context of a call that is the event of index \<open>n\<close> is done when
  \<open>k \<le> n\<close>. Real time is not modelled: of the timer and the cancellation, the one
  that comes first is the one that comes first among the events.
\<close>

record world =
  sigint :: "nat option"
  usage :: string
  unit_file :: string
  url_Parse :: "string \<Rightarrow> error + URL"
  url_String :: "URL \<Rightarrow> string"
  Quote :: "string \<Rightarrow> string"
  Duration_String :: "int \<Rightarrow> string"
  WithEnterpriseURLs_err :: "string \<Rightarrow> string \<Rightarrow> error option"
  ListByOrg :: "nat \<Rightarrow> bool \<Rightarrow> Client \<Rightarrow> string \<Rightarrow> RepositoryListByOrgOptions
                 \<Rightarrow> error + Repository list"
  MkdirTemp :: "nat \<Rightarrow> error + string"
  PlainClone :: "nat \<Rightarrow> string \<Rightarrow> CloneOptions \<Rightarrow> error option"
  Create :: "nat \<Rightarrow> bool \<Rightarrow> Client \<Rightarrow> string \<Rightarrow> Repository \<Rightarrow> error option"
  Push :: "nat \<Rightarrow> string \<Rightarrow> PushOptions \<Rightarrow> error option"

definition Done :: "world \<Rightarrow> nat \<Rightarrow> bool" where
  "Done w n = (case sigint w of None \<Rightarrow> False | Some k \<Rightarrow> k \<le> n)"

definition WithEnterpriseURLs :: "world \<Rightarrow> Client \<Rightarrow> string \<Rightarrow> string \<Rightarrow> error + Client" where
  "WithEnterpriseURLs w c baseURL uploadURL =
     (case WithEnterpriseURLs_err w baseURL uploadURL of
        Some err \<Rightarrow> Inl err
      | None \<Rightarrow> Inr (c\<lparr>endpoints := EnterpriseURLs baseURL uploadURL\<rparr>))"

section \<open>The program\<close>

subsection \<open>rewriteURL\<close>

text \<open>
  The struct that \<^verbatim>\<open>rewriteURL\<close> builds from the parsed target and the
  repository, and the function itself, which prints it. \<^verbatim>\<open>Split\<close> never
  returns an empty slice, so the index \<^verbatim>\<open>[0]\<close> is the head.
\<close>

definition rewrittenURL :: "URL \<Rightarrow> Repo \<Rightarrow> URL" where
  "rewrittenURL tgtURL r =
     (let org = hd (Split (Trim (Path tgtURL) ''/'') CHR ''/'')
      in zeroURL\<lparr>
           Scheme := Scheme tgtURL,
           Host := Host tgtURL,
           Path := ''/'' @ Join [org, Name r] ''/'',
           RawPath := ''/'' @ Join [org, Name r] ''/''\<rparr>)"

definition rewriteURL :: "world \<Rightarrow> Repo \<Rightarrow> string \<Rightarrow> error + string" where
  "rewriteURL w r tgt =
     (case url_Parse w tgt of
        Inl err \<Rightarrow> Inl (Wrapped ''failed to parse target URL: '' err)
      | Inr tgtURL \<Rightarrow> Inr (url_String w (rewrittenURL tgtURL r)))"

subsection \<open>listReposForOrg and listRepos\<close>

text \<open>
  In \<^verbatim>\<open>listRepos\<close> the last branch is reached with exactly two segments, since
  \<^verbatim>\<open>Split\<close> returns at least one; \<^verbatim>\<open>segments[1]\<close> is then in range.
\<close>

text \<open>
  The page loop of \<^verbatim>\<open>listReposForOrg\<close>. It ends only when the API returns an
  error or an empty page, so it is a partial function: \<open>None\<close> is the run that never
  returns. The page index is a Go \<^verbatim>\<open>int\<close> (64 bits), counted here without a
  bound. On an error Go returns the repositories collected so far beside the
  error; every caller drops them, and so does the model.
\<close>

definition listOptions :: "nat \<Rightarrow> RepositoryListByOrgOptions" where
  "listOptions pageIndex =
     \<lparr>Sort = ''updated'', Direction = ''desc'', Page = pageIndex, PerPage = 100\<rparr>"

definition toRepo :: "Repository \<Rightarrow> Repo" where
  "toRepo rr = \<lparr>Name = GetName rr, URL = GetHTMLURL rr\<rparr>"

partial_function (option) listPages ::
  "world \<Rightarrow> Client \<Rightarrow> string \<Rightarrow> nat \<Rightarrow> Repo list \<Rightarrow> event list
     \<Rightarrow> ((error + Repo list) \<times> event list) option" where
  "listPages w client org pageIndex repos tr =
     (case ListByOrg w (length tr) (Done w (length tr)) client org (listOptions pageIndex) of
        Inl err \<Rightarrow>
          Some (Inl (Wrapped ''failed to list repos: '' err),
                tr @ [Call (ListByOrg_call (Done w (length tr)) client org (listOptions pageIndex))])
      | Inr r \<Rightarrow>
          if length r = 0
          then Some (Inr repos,
                tr @ [Call (ListByOrg_call (Done w (length tr)) client org (listOptions pageIndex))])
          else listPages w client org (pageIndex + 1) (repos @ map toRepo r)
                 (tr @ [Call (ListByOrg_call (Done w (length tr)) client org (listOptions pageIndex))]))"

declare listPages.simps [code]

text \<open>
  The client of \<^verbatim>\<open>listReposForOrg\<close> (its first lines) and the function: the
  organisation is the first piece of the trimmed path, and the pages start at 0
  with nothing collected.
\<close>

definition listClient :: "world \<Rightarrow> URL \<Rightarrow> string \<Rightarrow> error + Client" where
  "listClient w ghURL token =
     (let host = ToLower (Hostname ghURL);
          client = NewClient_WithAuthToken token
      in if host \<noteq> ''github.com''
         then WithEnterpriseURLs w client (Scheme ghURL @ ''://'' @ host)
                (Scheme ghURL @ ''://'' @ host)
         else Inr client)"

definition listReposForOrg ::
  "world \<Rightarrow> event list \<Rightarrow> URL \<Rightarrow> string \<Rightarrow> ((error + Repo list) \<times> event list) option" where
  "listReposForOrg w tr ghURL token =
     (case listClient w ghURL token of
        Inl err \<Rightarrow> Some (Inl (Wrapped ''failed to set enterprise domain: '' err), tr)
      | Inr client \<Rightarrow>
          listPages w client (hd (Split (Trim (Path ghURL) ''/'') CHR ''/'')) 0 [] tr)"

definition listRepos ::
  "world \<Rightarrow> event list \<Rightarrow> string \<Rightarrow> string \<Rightarrow> ((error + Repo list) \<times> event list) option" where
  "listRepos w tr ghURL token =
     (case url_Parse w ghURL of
        Inl err \<Rightarrow> Some (Inl (Wrapped ''failed to parse url: '' err), tr)
      | Inr u \<Rightarrow>
          (let segments = Split (Trim (Path u) ''/'') CHR ''/''
           in if length segments = 1 then listReposForOrg w tr u token
              else if length segments > 2
              then Some (Inl (ErrorString
                     (''unexpected number of path segments in URL, expected /<org> or /<org>/<repo>, got ''
                        @ Quote w ghURL)), tr)
              else Some (Inr [\<lparr>Name = segments ! 1, URL = ghURL\<rparr>], tr)))"

subsection \<open>copy\<close>

text \<open>
  \<^verbatim>\<open>copy\<close> returns \<open>None\<close> for \<^verbatim>\<open>nil\<close> and \<open>Some err\<close> for an error, beside the
  run extended by the calls it made. The cloned repository is known by its
  directory. The two lines that choose the client's endpoints are
  \<open>copyClient\<close>. The context is handed to \<^verbatim>\<open>Repositories.Create\<close> only:
  \<^verbatim>\<open>git.PlainClone\<close> and \<^verbatim>\<open>Push\<close> are the variants without one. What the
  libraries write to \<^verbatim>\<open>Progress\<close> is not part of the model.
\<close>

definition copyClient :: "world \<Rightarrow> URL \<Rightarrow> string \<Rightarrow> error + Client" where
  "copyClient w u tgtAccessToken =
     (let host = ToLower (Hostname u);
          client = NewClient_WithAuthToken tgtAccessToken
      in if host \<noteq> ''github.com''
         then WithEnterpriseURLs w client (Scheme u @ ''://'' @ host) (Scheme u @ ''://'' @ host)
         else Inr client)"

definition copy ::
  "world \<Rightarrow> event list \<Rightarrow> string \<Rightarrow> string \<Rightarrow> string \<Rightarrow> string \<Rightarrow> string
     \<Rightarrow> error option \<times> event list" where
  "copy w tr srcAccessToken src tgtAccessToken tgt tgtVisibility =
     (let tr1 = tr @ [Call MkdirTemp_call] in
      case MkdirTemp w (length tr) of
        Inl err \<Rightarrow> (Some (Wrapped ''failed to create temp directory: '' err), tr1)
      | Inr dir \<Rightarrow>
     (let cloneOptions = \<lparr>clone_URL = src,
            clone_Auth = \<lparr>Username = ''git'', Password = srcAccessToken\<rparr>\<rparr>;
          tr2 = tr1 @ [Call (PlainClone_call dir cloneOptions)] in
      case PlainClone w (length tr1) dir cloneOptions of
        Some err \<Rightarrow> (Some (Wrapped ''failed to clone: '' err), tr2)
      | None \<Rightarrow>
     (case url_Parse w tgt of
        Inl err \<Rightarrow> (Some (Wrapped ''failed to parse url: '' err), tr2)
      | Inr u \<Rightarrow>
     (case copyClient w u tgtAccessToken of
        Inl err \<Rightarrow> (Some (Wrapped ''failed to set enterprise domain: '' err), tr2)
      | Inr client' \<Rightarrow>
     (let owner = Trim (fst (path_Split (Path u))) ''/'';
          name = Trim (snd (path_Split (Path u))) ''/'';
          repository = \<lparr>Name_ptr = Some name, HTMLURL_ptr = None,
            Description_ptr = Some (''Mirror of '' @ src),
            Visibility_ptr = Some tgtVisibility\<rparr>;
          created = Create w (length tr2) (Done w (length tr2)) client' owner repository;
          tr3 = tr2 @ [Call (Create_call (Done w (length tr2)) client' owner repository)] in
      if created \<noteq> None
         \<and> \<not> Contains (Error (the created)) ''name already exists on this account''
      then (Some (Wrapped ''failed to create target repo: '' (the created)), tr3)
      else
     (let pushOptions = \<lparr>RemoteURL = tgt,
            push_Auth = \<lparr>Username = ''git'', Password = tgtAccessToken\<rparr>,
            Force = True, FollowTags = True\<rparr>;
          pushed = Push w (length tr3) dir pushOptions;
          tr4 = tr3 @ [Call (Push_call dir pushOptions)] in
      if pushed \<noteq> None \<and> \<not> errors_Is (the pushed) NoErrAlreadyUpToDate
      then (Some (Wrapped ''failed to push to target: '' (the pushed)), tr4)
      else (None, tr4)))))))"

subsection \<open>main\<close>

text \<open>The parsed command line: one field for each flag of \<^verbatim>\<open>main\<close>.\<close>

record flags =
  srcAccessTokenFlag :: string
  srcURLFlag :: string
  tgtAccessTokenFlag :: string
  tgtURLFlag :: string
  tgtVisibilityFlag :: string
  everyFlag :: int
  printSystemdUnitFlag :: bool
  helpFlag :: bool

definition quoteAll :: "world \<Rightarrow> string list \<Rightarrow> string list" where
  "quoteAll w v = map (Quote w) v"

definition isOneOf :: "world \<Rightarrow> string \<Rightarrow> string list \<Rightarrow> string" where
  "isOneOf w v allowed =
     (if v \<in> set allowed then []
      else ''value '' @ Quote w v @ '' was not one of the allowed values: ''
             @ Join (quoteAll w allowed) '', '')"

text \<open>
  The inner loop of a pass, over the repositories in listing order. The first
  component of the result is \<open>Some code\<close> when \<^verbatim>\<open>os.Exit(code)\<close> was called.
\<close>

fun copyRepos :: "world \<Rightarrow> flags \<Rightarrow> Repo list \<Rightarrow> event list \<Rightarrow> int option \<times> event list" where
  "copyRepos w f [] tr = (None, tr)"
| "copyRepos w f (repo # repos) tr =
     (case rewriteURL w repo (tgtURLFlag f) of
        Inl err \<Rightarrow> (Some 1, tr @ [Stdout (FailedToRewrite (URL repo) err)])
      | Inr tgt \<Rightarrow>
          (case copy w (tr @ [Stdout (Copying (URL repo) tgt)]) (srcAccessTokenFlag f)
                  (URL repo) (tgtAccessTokenFlag f) tgt (tgtVisibilityFlag f) of
             (Some err, tr') \<Rightarrow> (Some 1, tr' @ [Stdout (FailedToCopy err)])
           | (None, tr') \<Rightarrow> copyRepos w f repos tr'))"

text \<open>
  The loop labelled \<^verbatim>\<open>loop\<close>. A pass lists, then copies; with a zero interval the
  loop is left after the first pass. Otherwise the \<^verbatim>\<open>select\<close> blocks until the
  context is done or the timer fires: it is the next event of the run, and the
  context's case is taken when SIGINT has arrived by then. The result is the run
  and the exit code of the process; \<open>None\<close> is the run that never ends.
\<close>

partial_function (option) mainLoop ::
  "world \<Rightarrow> flags \<Rightarrow> event list \<Rightarrow> (event list \<times> int) option" where
  "mainLoop w f tr =
     (case listRepos w (tr @ [Stdout (ListingRepos (srcURLFlag f))])
             (srcURLFlag f) (srcAccessTokenFlag f) of
        None \<Rightarrow> None
      | Some (Inl err, tr1) \<Rightarrow> Some (tr1 @ [Stdout (FailedToList err)], 1)
      | Some (Inr repos, tr1) \<Rightarrow>
          (case copyRepos w f repos (tr1 @ [Stdout (CopyingRepos (length repos))]) of
             (Some code, tr2) \<Rightarrow> Some (tr2, code)
           | (None, tr2) \<Rightarrow>
               if everyFlag f = 0 then Some (tr2, 0)
               else if Done w (Suc (length tr2))
               then Some (tr2 @ [Stdout (ProcessComplete (everyFlag f)),
                                 Call (Wait_call (everyFlag f)), Stdout ContextClosed], 0)
               else mainLoop w f
                      (tr2 @ [Stdout (ProcessComplete (everyFlag f)),
                              Call (Wait_call (everyFlag f)), Stdout WaitComplete])))"

declare mainLoop.simps [code]

definition main :: "world \<Rightarrow> flags \<Rightarrow> (event list \<times> int) option" where
  "main w f =
     (if helpFlag f then Some ([Stdout (Print (usage w)), Stderr_PrintDefaults], 0)
      else
     (let errors =
            (if srcAccessTokenFlag f = [] then [''Missing src-token flag''] else [])
          @ (if srcURLFlag f = [] then [''Missing src-url flag''] else [])
          @ (if tgtAccessTokenFlag f = [] then [''Missing tgt-token flag''] else [])
          @ (if tgtURLFlag f = [] then [''Missing tgt-url flag''] else [])
          @ (if isOneOf w (tgtVisibilityFlag f) [''public'', ''internal'', ''private''] \<noteq> []
             then [''tgt-visibility: ''
                    @ isOneOf w (tgtVisibilityFlag f) [''public'', ''internal'', ''private'']]
             else [])
      in if length errors > 0
         then Some ([Stdout (Println ''Invalid or missing params:''),
                     Stdout (Println ([CHR 0x0A] @ '' -'' @ Join errors ([CHR 0x0A] @ '' -'')))], 1)
         else if printSystemdUnitFlag f
         then Some ([Stdout (Println (ReplaceAll (unit_file w) ''$CMD''
                 (''/usr/local/bin/copy-github-to-github''
                  @ '' -src-token '' @ srcAccessTokenFlag f
                  @ '' -src-url '' @ srcURLFlag f
                  @ '' -tgt-token '' @ tgtAccessTokenFlag f
                  @ '' -tgt-url '' @ tgtURLFlag f
                  @ '' -tgt-visibility '' @ tgtVisibilityFlag f
                  @ (if everyFlag f > 0 then '' -every '' @ Duration_String w (everyFlag f)
                     else []))))], 0)
         else mainLoop w f []))"

section \<open>Worlds to run the program in\<close>

text \<open>
  \<open>goWorld\<close> has Go's URL functions and an outside where every call succeeds: the
  API lists nothing, and SIGINT never comes. \<^verbatim>\<open>Duration.String\<close> is given at
  ten minutes only. The worlds below change single answers of it.
\<close>

definition goWorld :: world where
  "goWorld = \<lparr>
     sigint = None,
     usage = ''Copy a Github repo or full organization between accounts.'',
     unit_file = ''ExecStart=$CMD'',
     url_Parse = go_Parse,
     url_String = go_String,
     Quote = go_Quote,
     Duration_String = (\<lambda>d. if d = 600000000000 then ''10m0s'' else []),
     WithEnterpriseURLs_err = (\<lambda>baseURL uploadURL. None),
     ListByOrg = (\<lambda>n done client org opts. Inr []),
     MkdirTemp = (\<lambda>n. Inr ''/tmp/src_repo_1''),
     PlainClone = (\<lambda>n dir opts. None),
     Create = (\<lambda>n done client owner repository. None),
     Push = (\<lambda>n dir opts. None)\<rparr>"

definition acmeRepository :: "string \<Rightarrow> Repository" where
  "acmeRepository n =
     \<lparr>Name_ptr = Some n, HTMLURL_ptr = Some (''https://github.com/acme/'' @ n),
      Description_ptr = None, Visibility_ptr = None\<rparr>"

text \<open>
  The organisation \<^verbatim>\<open>acme\<close> with the repositories \<^verbatim>\<open>a\<close>, \<^verbatim>\<open>b\<close> and
  \<^verbatim>\<open>c\<close> on one page, and the command line that mirrors it to
  \<^verbatim>\<open>https://git.enterprise.test/widgets\<close>.
\<close>

definition acmeWorld :: world where
  "acmeWorld = goWorld\<lparr>ListByOrg :=
     (\<lambda>n done client org opts.
        if org = ''acme'' \<and> Page opts = 0
        then Inr [acmeRepository ''a'', acmeRepository ''b'', acmeRepository ''c'']
        else Inr [])\<rparr>"

definition acmeFlags :: flags where
  "acmeFlags = \<lparr>
     srcAccessTokenFlag = ''s3cr3t'',
     srcURLFlag = ''https://github.com/acme'',
     tgtAccessTokenFlag = ''t0k3n'',
     tgtURLFlag = ''https://git.enterprise.test/widgets'',
     tgtVisibilityFlag = ''public'',
     everyFlag = 0,
     printSystemdUnitFlag = False,
     helpFlag = False\<rparr>"

text \<open>
  A world for two mirrors of one repository in a row: by the time of the second
  (from the fifth event on) the repository exists on the target and nothing is new,
  so the API refuses to create it again and the push reports that all is up to
  date.
\<close>

definition alreadyExistsError :: error where
  "alreadyExistsError = ErrorString
     (''POST https://git.enterprise.test/api/v3/orgs/widgets/repos: 422 Repository creation failed. ''
      @ ''[{Resource:Repository Field:name Code:custom Message:name already exists on this account}]'')"

definition twiceWorld :: world where
  "twiceWorld = goWorld\<lparr>
     Create := (\<lambda>n done client owner repository. if n < 4 then None else Some alreadyExistsError),
     Push := (\<lambda>n dir opts. if n < 4 then None else Some NoErrAlreadyUpToDate)\<rparr>"

text \<open>The organisation \<^verbatim>\<open>acme\<close> again, where the clone of \<^verbatim>\<open>b\<close> fails.\<close>

definition failWorld :: world where
  "failWorld = acmeWorld\<lparr>PlainClone :=
     (\<lambda>n dir opts. if clone_URL opts = ''https://github.com/acme/b''
                    then Some (ErrorString ''authentication required'') else None)\<rparr>"

text \<open>
  A command line that mirrors the single repository \<^verbatim>\<open>acme/a\<close> every ten
  minutes, and the events of one pass of it up to the creation of the target
  repository (\<^verbatim>\<open>Repositories.Create\<close> gets a live or a cancelled context) and
  its push. In \<open>waitWorld\<close> SIGINT arrives during the clone of the second pass
  and no call minds; in \<open>cancelWorld k\<close> it arrives at event \<open>k\<close> and
  \<^verbatim>\<open>Repositories.Create\<close> fails on a cancelled context, as go-github does.
\<close>

definition everyFlags :: flags where
  "everyFlags = acmeFlags\<lparr>srcURLFlag := ''https://github.com/acme/a'', everyFlag := 600000000000\<rparr>"

definition passEvents :: "bool \<Rightarrow> event list" where
  "passEvents cancelled =
     [Stdout (ListingRepos ''https://github.com/acme/a''),
      Stdout (CopyingRepos 1),
      Stdout (Copying ''https://github.com/acme/a'' ''https://git.enterprise.test/widgets/a''),
      Call MkdirTemp_call,
      Call (PlainClone_call ''/tmp/src_repo_1''
        \<lparr>clone_URL = ''https://github.com/acme/a'',
           clone_Auth = \<lparr>Username = ''git'', Password = ''s3cr3t''\<rparr>\<rparr>),
      Call (Create_call cancelled
        \<lparr>authToken = ''t0k3n'', endpoints =
           EnterpriseURLs ''https://git.enterprise.test'' ''https://git.enterprise.test''\<rparr>
        ''widgets''
        \<lparr>Name_ptr = Some ''a'', HTMLURL_ptr = None,
           Description_ptr = Some ''Mirror of https://github.com/acme/a'',
           Visibility_ptr = Some ''public''\<rparr>)]"

definition pushEvent :: event where
  "pushEvent = Call (Push_call ''/tmp/src_repo_1''
        \<lparr>RemoteURL = ''https://git.enterprise.test/widgets/a'',
           push_Auth = \<lparr>Username = ''git'', Password = ''t0k3n''\<rparr>,
           Force = True, FollowTags = True\<rparr>)"

definition waitWorld :: world where
  "waitWorld = goWorld\<lparr>sigint := Some 14\<rparr>"

definition cancelWorld :: "nat \<Rightarrow> world" where
  "cancelWorld k = goWorld\<lparr>sigint := Some k,
     Create := (\<lambda>n done client owner repository.
                  if done then Some (ErrorString ''context canceled'') else None)\<rparr>"

section \<open>The words of the specification\<close>

text \<open>
  The specification speaks of the first non-empty path segment of a URL: the
  first piece between slashes that is not empty, and the empty string when there
  is none.
\<close>

definition firstNonEmptySegment :: "string \<Rightarrow> string" where
  "firstNonEmptySegment p =
     (case filter (\<lambda>s. s \<noteq> []) (Split p CHR ''/'') of [] \<Rightarrow> [] | s # ss \<Rightarrow> s)"



text \<open>
  What a run prints: the lines on standard output, in order. \<open>observed\<close> keeps of
  a listing its result and what it printed, \<open>printedBy\<close> of a whole run the
  printed lines and the exit code.
\<close>

fun stdout :: "event list \<Rightarrow> printed list" where
  "stdout [] = []"
| "stdout (Stdout p # tr) = p # stdout tr"
| "stdout (e # tr) = stdout tr"

definition observed :: "('a \<times> event list) option \<Rightarrow> ('a \<times> printed list) option" where
  "observed run = map_option (\<lambda>(r, tr). (r, stdout tr)) run"

definition printedBy :: "(event list \<times> int) option \<Rightarrow> (printed list \<times> int) option" where
  "printedBy run = map_option (\<lambda>(tr, code). (stdout tr, code)) run"

text \<open>
  Two runs get the same answers from the outside: the run in \<open>w\<close> that presents
  the source token \<open>s\<close> and the target token \<open>t\<close>, and the run in \<open>w'\<close> that
  presents \<open>s'\<close> and \<open>t'\<close>. At every moment each call is answered alike in
  both, whichever of the two tokens it carries and whatever the context is then.
  \<open>sameRun\<close> relates two runs that return the same with traces of the same length
  that print the same.
\<close>

definition sameAnswers :: "world \<Rightarrow> string \<Rightarrow> string \<Rightarrow> world \<Rightarrow> string \<Rightarrow> string \<Rightarrow> bool" where
  "sameAnswers w s t w' s' t' =
     (url_Parse w' = url_Parse w \<and> url_String w' = url_String w \<and> Quote w' = Quote w
      \<and> WithEnterpriseURLs_err w' = WithEnterpriseURLs_err w \<and> MkdirTemp w' = MkdirTemp w
      \<and> (\<forall>n e org opts.
            ListByOrg w' n (Done w' n) \<lparr>authToken = s', endpoints = e\<rparr> org opts
              = ListByOrg w n (Done w n) \<lparr>authToken = s, endpoints = e\<rparr> org opts)
      \<and> (\<forall>n dir src.
            PlainClone w' n dir \<lparr>clone_URL = src,
                clone_Auth = \<lparr>Username = ''git'', Password = s'\<rparr>\<rparr>
              = PlainClone w n dir \<lparr>clone_URL = src,
                clone_Auth = \<lparr>Username = ''git'', Password = s\<rparr>\<rparr>)
      \<and> (\<forall>n e owner r.
            Create w' n (Done w' n) \<lparr>authToken = t', endpoints = e\<rparr> owner r
              = Create w n (Done w n) \<lparr>authToken = t, endpoints = e\<rparr> owner r)
      \<and> (\<forall>n dir tgt.
            Push w' n dir \<lparr>RemoteURL = tgt,
                push_Auth = \<lparr>Username = ''git'', Password = t'\<rparr>, Force = True, FollowTags = True\<rparr>
              = Push w n dir \<lparr>RemoteURL = tgt,
                push_Auth = \<lparr>Username = ''git'', Password = t\<rparr>, Force = True, FollowTags = True\<rparr>))"

definition sameRun :: "('a \<times> event list) option \<Rightarrow> ('a \<times> event list) option \<Rightarrow> bool" where
  "sameRun a b =
     (case a of
        None \<Rightarrow> b = None
      | Some (r, x) \<Rightarrow> (\<exists>x'. b = Some (r, x') \<and> length x' = length x \<and> stdout x' = stdout x))"

text \<open>A world whose API calls do not look at the context they are given.\<close>

definition ctxBlind :: "world \<Rightarrow> bool" where
  "ctxBlind w =
     ((\<forall>n d d' c org opts. ListByOrg w n d c org opts = ListByOrg w n d' c org opts)
      \<and> (\<forall>n d d' c owner r. Create w n d c owner r = Create w n d' c owner r))"

section \<open>Facts about the string functions\<close>

lemma Split_not_Nil: "Split s c \<noteq> []"
  by (induction s) (auto split: list.splits)

lemma hd_Split: "hd (Split s c) = takeWhile (\<lambda>x. x \<noteq> c) s"
  by (induction s) (auto split: list.splits simp: Split_not_Nil)

lemma length_Split: "length (Split s c) = Suc (length (filter (\<lambda>x. x = c) s))"
  by (induction s) (auto split: list.splits simp: Split_not_Nil)

lemma Split_no_sep: "p \<in> set (Split s c) \<Longrightarrow> c \<notin> set p"
  by (induction s arbitrary: p) (auto split: list.splits if_splits)

lemma takeWhile_snoc_sep: "takeWhile (\<lambda>x. x \<noteq> c) (q @ [c]) = takeWhile (\<lambda>x. x \<noteq> c) q"
  by (induction q) auto

lemma takeWhile_TrimRight:
  "takeWhile (\<lambda>x. x \<noteq> c) (TrimRight q [c]) = takeWhile (\<lambda>x. x \<noteq> c) q"
proof (induction q rule: rev_induct)
  case Nil
  show ?case by (simp add: TrimRight_def)
next
  case (snoc x q)
  show ?case
  proof (cases "x = c")
    case True
    have "TrimRight (q @ [x]) [c] = TrimRight q [c]"
      using True by (simp add: TrimRight_def)
    then show ?thesis using snoc.IH True by (simp add: takeWhile_snoc_sep)
  next
    case False
    then show ?thesis by (simp add: TrimRight_def)
  qed
qed

lemma hd_Split_Trim:
  "hd (Split (Trim p [c]) c) = takeWhile (\<lambda>x. x \<noteq> c) (dropWhile (\<lambda>x. x = c) p)"
  by (simp add: hd_Split Trim_def takeWhile_TrimRight TrimLeft_def)

lemma first_nonempty_piece:
  "(case filter (\<lambda>s. s \<noteq> []) (Split p c) of [] \<Rightarrow> [] | s # ss \<Rightarrow> s)
     = takeWhile (\<lambda>x. x \<noteq> c) (dropWhile (\<lambda>x. x = c) p)"
proof (induction p)
  case Nil
  then show ?case by simp
next
  case (Cons a p)
  show ?case
  proof (cases "a = c")
    case True
    with Cons show ?thesis by simp
  next
    case False
    then show ?thesis
      by (cases "Split p c") (simp_all add: Split_not_Nil hd_Split[symmetric])
  qed
qed

lemma org_is_firstNonEmptySegment:
  "hd (Split (Trim p ''/'') CHR ''/'') = firstNonEmptySegment p"
  by (simp add: hd_Split_Trim firstNonEmptySegment_def first_nonempty_piece)

lemma firstNonEmptySegment_no_slash: "CHR ''/'' \<notin> set (firstNonEmptySegment p)"
  unfolding firstNonEmptySegment_def first_nonempty_piece
  by (metis (mono_tags, lifting) set_takeWhileD)

lemma firstNonEmptySegment_rebuilt:
  assumes "org \<noteq> []" and "CHR ''/'' \<notin> set org"
  shows "firstNonEmptySegment (CHR ''/'' # org @ CHR ''/'' # rest) = org"
proof -
  obtain a as where org: "org = a # as" using assms(1) by (cases org) auto
  have a: "a \<noteq> CHR ''/''" using assms(2) org by auto
  have "takeWhile (\<lambda>x. x \<noteq> CHR ''/'') (org @ CHR ''/'' # rest) = org"
    using assms(2) by (induction org) auto
  then show ?thesis
    unfolding firstNonEmptySegment_def first_nonempty_piece using a org by simp
qed

lemma rewrittenURL_fields:
  "Scheme (rewrittenURL u r) = Scheme u"
  "Host (rewrittenURL u r) = Host u"
  "Path (rewrittenURL u r) = ''/'' @ firstNonEmptySegment (Path u) @ ''/'' @ Name r"
  "RawPath (rewrittenURL u r) = ''/'' @ firstNonEmptySegment (Path u) @ ''/'' @ Name r"
  "User (rewrittenURL u r) = None"
  "Opaque (rewrittenURL u r) = []"
  "RawQuery (rewrittenURL u r) = []"
  "Fragment (rewrittenURL u r) = []"
  "RawFragment (rewrittenURL u r) = []"
  "ForceQuery (rewrittenURL u r) = False"
  "OmitHost (rewrittenURL u r) = False"
  by (simp_all add: rewrittenURL_def Let_def zeroURL_def org_is_firstNonEmptySegment)

lemma rewrittenURL_cong:
  "Scheme u' = Scheme u \<Longrightarrow> Host u' = Host u
     \<Longrightarrow> firstNonEmptySegment (Path u') = firstNonEmptySegment (Path u)
     \<Longrightarrow> rewrittenURL u' r = rewrittenURL u r"
  by (simp add: rewrittenURL_def Let_def org_is_firstNonEmptySegment)









section \<open>The target mapper\<close>



text \<open>
  Claim C6. For a target URL that parses and names an organisation (its path has a
  non-empty segment), and a library whose \<^verbatim>\<open>url.Parse\<close> gives back the scheme,
  host and path of the destination that its \<^verbatim>\<open>String\<close> printed, rewriting the
  destination again for the same repository gives the same destination; the
  destination's path is that first non-empty segment followed by the repository's
  name, with the target's scheme and host.
\<close>

theorem C6_rewriteURL_idempotent:
  assumes "url_Parse w tgt = Inr u"
    and "firstNonEmptySegment (Path u) \<noteq> []"
    and "url_Parse w (url_String w (rewrittenURL u r)) = Inr u'"
    and "Scheme u' = Scheme u" and "Host u' = Host u"
    and "Path u' = Path (rewrittenURL u r)"
  shows "rewriteURL w r tgt = Inr (url_String w (rewrittenURL u r))
       \<and> rewriteURL w r (url_String w (rewrittenURL u r)) = Inr (url_String w (rewrittenURL u r))
       \<and> Path (rewrittenURL u r) = ''/'' @ firstNonEmptySegment (Path u) @ ''/'' @ Name r
       \<and> Scheme (rewrittenURL u r) = Scheme u \<and> Host (rewrittenURL u r) = Host u"
proof -
  have first: "rewriteURL w r tgt = Inr (url_String w (rewrittenURL u r))"
    using assms(1) by (simp add: rewriteURL_def)
  have "firstNonEmptySegment (Path u') = firstNonEmptySegment (Path u)"
    using assms(2) assms(6) firstNonEmptySegment_no_slash[of "Path u"]
    by (simp add: rewrittenURL_fields(3) firstNonEmptySegment_rebuilt)
  then have "rewrittenURL u' r = rewrittenURL u r"
    using assms(4,5) by (rule rewrittenURL_cong[rotated 2])
  then have second: "rewriteURL w r (url_String w (rewrittenURL u r))
      = Inr (url_String w (rewrittenURL u r))"
    using assms(3) by (simp add: rewriteURL_def)
  show ?thesis using first second by (simp add: rewrittenURL_fields)
qed

theorem C6_rewriteURL_idempotent_witness:
  "url_Parse goWorld ''https://git.enterprise.test/widgets''
     = Inr (zeroURL\<lparr>Scheme := ''https'', Host := ''git.enterprise.test'', Path := ''/widgets''\<rparr>)
   \<and> firstNonEmptySegment ''/widgets'' \<noteq> []
   \<and> url_Parse goWorld ''https://git.enterprise.test/widgets/a''
     = Inr (zeroURL\<lparr>Scheme := ''https'', Host := ''git.enterprise.test'', Path := ''/widgets/a''\<rparr>)
   \<and> rewriteURL goWorld \<lparr>Name = ''a'', URL = ''https://github.com/acme/a''\<rparr>
         ''https://git.enterprise.test/widgets'' = Inr ''https://git.enterprise.test/widgets/a''
   \<and> rewriteURL goWorld \<lparr>Name = ''a'', URL = ''https://github.com/acme/a''\<rparr>
         ''https://git.enterprise.test/widgets/a'' = Inr ''https://git.enterprise.test/widgets/a''"
proof -
  let ?u = "zeroURL\<lparr>Scheme := ''https'', Host := ''git.enterprise.test'', Path := ''/widgets''\<rparr>"
  let ?u' = "zeroURL\<lparr>Scheme := ''https'', Host := ''git.enterprise.test'', Path := ''/widgets/a''\<rparr>"
  let ?r = "\<lparr>Name = ''a'', URL = ''https://github.com/acme/a''\<rparr>"
  have printed: "url_String goWorld (rewrittenURL ?u ?r) = ''https://git.enterprise.test/widgets/a''"
    by code_simp
  have h1: "url_Parse goWorld ''https://git.enterprise.test/widgets'' = Inr ?u"
    by code_simp
  have seg: "firstNonEmptySegment ''/widgets'' \<noteq> []"
    by code_simp
  then have h2: "firstNonEmptySegment (Path ?u) \<noteq> []"
    by simp
  have reparsed: "url_Parse goWorld ''https://git.enterprise.test/widgets/a'' = Inr ?u'"
    by code_simp
  then have h3: "url_Parse goWorld (url_String goWorld (rewrittenURL ?u ?r)) = Inr ?u'"
    using printed by simp
  have h4: "Scheme ?u' = Scheme ?u" and h5: "Host ?u' = Host ?u"
    by simp_all
  have h6: "Path ?u' = Path (rewrittenURL ?u ?r)"
    by code_simp
  show ?thesis
    using C6_rewriteURL_idempotent[OF h1 h2 h3 h4 h5 h6] printed h1 seg reparsed by simp
qed

text \<open>
  A target URL that names no organisation is outside of this: with an empty path the
  organisation segment is empty, the destination is
  \<^verbatim>\<open>https://git.enterprise.test//a\<close>, and rewriting that destination takes
  \<^verbatim>\<open>a\<close> for the organisation.
\<close>

lemma rewriteURL_empty_path_not_idempotent:
  "rewriteURL goWorld \<lparr>Name = ''a'', URL = ''https://github.com/acme/a''\<rparr>
      ''https://git.enterprise.test'' = Inr ''https://git.enterprise.test//a''
   \<and> rewriteURL goWorld \<lparr>Name = ''a'', URL = ''https://github.com/acme/a''\<rparr>
      ''https://git.enterprise.test//a'' = Inr ''https://git.enterprise.test/a/a''"
  by code_simp

section \<open>The repository lister\<close>

lemma listPages_run:
  assumes "\<forall>k\<le>n. ListByOrg w (length tr + k) (Done w (length tr + k)) client org
                    (listOptions (i + k)) = Inr (pages k)"
    and "\<forall>k<n. pages k \<noteq> []" and "pages n = []"
  shows "listPages w client org i repos tr =
           Some (Inr (repos @ concat (map (\<lambda>k. map toRepo (pages k)) [0..<n])),
                 tr @ map (\<lambda>k. Call (ListByOrg_call (Done w (length tr + k)) client org
                                      (listOptions (i + k)))) [0..<Suc n])"
  using assms
proof (induction n arbitrary: i repos tr pages)
  case 0
  then show ?case by (subst listPages.simps) simp
next
  case (Suc n)
  let ?call = "Call (ListByOrg_call (Done w (length tr)) client org (listOptions i))"
  have first: "ListByOrg w (length tr) (Done w (length tr)) client org (listOptions i) = Inr (pages 0)"
    using Suc.prems(1) by (metis add.right_neutral le0)
  have nonempty: "pages 0 \<noteq> []" using Suc.prems(2) by simp
  have step: "listPages w client org i repos tr =
      listPages w client org (Suc i) (repos @ map toRepo (pages 0)) (tr @ [?call])"
    using first nonempty by (subst listPages.simps) simp
  have IH: "listPages w client org (Suc i) (repos @ map toRepo (pages 0)) (tr @ [?call]) =
      Some (Inr ((repos @ map toRepo (pages 0))
                   @ concat (map (\<lambda>k. map toRepo (pages (Suc k))) [0..<n])),
            (tr @ [?call]) @ map (\<lambda>k. Call (ListByOrg_call (Done w (length (tr @ [?call]) + k))
                 client org (listOptions (Suc i + k)))) [0..<Suc n])"
  proof (rule Suc.IH)
    show "\<forall>k\<le>n. ListByOrg w (length (tr @ [?call]) + k) (Done w (length (tr @ [?call]) + k))
              client org (listOptions (Suc i + k)) = Inr (pages (Suc k))"
      using Suc.prems(1) by (auto dest: spec[of _ "Suc _"])
    show "\<forall>k<n. pages (Suc k) \<noteq> []" using Suc.prems(2) by auto
    show "pages (Suc n) = []" using Suc.prems(3) .
  qed
  have a: "concat (map (\<lambda>k. map toRepo (pages k)) [0..<Suc n])
      = map toRepo (pages 0) @ concat (map (\<lambda>k. map toRepo (pages (Suc k))) [0..<n])"
    by (simp only: upt_conv_Cons[of 0 "Suc n"] map_Suc_upt[symmetric]) (simp add: comp_def)
  have b: "map (\<lambda>k. Call (ListByOrg_call (Done w (length tr + k)) client org (listOptions (i + k))))
             [0..<Suc (Suc n)]
      = ?call # map (\<lambda>k. Call (ListByOrg_call (Done w (length (tr @ [?call]) + k)) client org
             (listOptions (Suc i + k)))) [0..<Suc n]"
    by (simp only: upt_conv_Cons[of 0 "Suc (Suc n)"] map_Suc_upt[symmetric]) (simp add: comp_def)
  show ?case
    unfolding step IH a b by simp
qed

text \<open>
  Claim C4. Let the API answer the requests for the pages \<open>0, \<dots>, n\<close>, made one after
  the other from the current point of the run, with the pages \<open>pages 0, \<dots>, pages n\<close>,
  all non-empty but the last. Then \<^verbatim>\<open>listReposForOrg\<close> returns: it makes exactly
  these \<open>n + 1\<close> requests, in increasing order of the page index from 0, each for
  at most 100 repositories sorted by \<^verbatim>\<open>updated\<close>, descending; it stops at the
  empty page; and its result is the pages one after the other, in the order
  received, each entry with the name and the HTML URL the API reported.
\<close>

theorem C4_listReposForOrg_pages:
  assumes "listClient w ghURL token = Inr client"
    and "org = hd (Split (Trim (Path ghURL) ''/'') CHR ''/'')"
    and "\<forall>k\<le>n. ListByOrg w (length tr + k) (Done w (length tr + k)) client org
                    (listOptions k) = Inr (pages k)"
    and "\<forall>k<n. pages k \<noteq> []" and "pages n = []"
  shows "listReposForOrg w tr ghURL token =
           Some (Inr (concat (map (\<lambda>k. map toRepo (pages k)) [0..<n])),
                 tr @ map (\<lambda>k. Call (ListByOrg_call (Done w (length tr + k)) client org
                                      (listOptions k))) [0..<Suc n])
       \<and> (\<forall>k. Page (listOptions k) = k \<and> PerPage (listOptions k) = 100
              \<and> Sort (listOptions k) = ''updated'' \<and> Direction (listOptions k) = ''desc'')
       \<and> (\<forall>rr. Name (toRepo rr) = GetName rr \<and> URL (toRepo rr) = GetHTMLURL rr)"
proof -
  have "listPages w client org 0 [] tr =
           Some (Inr ([] @ concat (map (\<lambda>k. map toRepo (pages k)) [0..<n])),
                 tr @ map (\<lambda>k. Call (ListByOrg_call (Done w (length tr + k)) client org
                                      (listOptions (0 + k)))) [0..<Suc n])"
    by (rule listPages_run) (use assms(3-5) in simp_all)
  then show ?thesis
    using assms(1,2) by (simp add: listReposForOrg_def listOptions_def toRepo_def)
qed

theorem C4_listReposForOrg_pages_witness:
  "listClient acmeWorld (zeroURL\<lparr>Scheme := ''https'', Host := ''github.com'', Path := ''/acme''\<rparr>)
       ''s3cr3t'' = Inr \<lparr>authToken = ''s3cr3t'', endpoints = DefaultEndpoints\<rparr>
   \<and> listReposForOrg acmeWorld []
       (zeroURL\<lparr>Scheme := ''https'', Host := ''github.com'', Path := ''/acme''\<rparr>) ''s3cr3t''
     = Some (Inr [\<lparr>Name = ''a'', URL = ''https://github.com/acme/a''\<rparr>,
                  \<lparr>Name = ''b'', URL = ''https://github.com/acme/b''\<rparr>,
                  \<lparr>Name = ''c'', URL = ''https://github.com/acme/c''\<rparr>],
             [Call (ListByOrg_call False \<lparr>authToken = ''s3cr3t'', endpoints = DefaultEndpoints\<rparr>
                      ''acme'' \<lparr>Sort = ''updated'', Direction = ''desc'', Page = 0, PerPage = 100\<rparr>),
              Call (ListByOrg_call False \<lparr>authToken = ''s3cr3t'', endpoints = DefaultEndpoints\<rparr>
                      ''acme'' \<lparr>Sort = ''updated'', Direction = ''desc'', Page = 1, PerPage = 100\<rparr>)])"
proof -
  let ?u = "zeroURL\<lparr>Scheme := ''https'', Host := ''github.com'', Path := ''/acme''\<rparr>"
  let ?client = "\<lparr>authToken = ''s3cr3t'', endpoints = DefaultEndpoints\<rparr>"
  let ?pages = "\<lambda>k::nat. if k = 0
      then [acmeRepository ''a'', acmeRepository ''b'', acmeRepository ''c''] else []"
  have h1: "listClient acmeWorld ?u ''s3cr3t'' = Inr ?client"
    by code_simp
  have h2: "''acme'' = hd (Split (Trim (Path ?u) ''/'') CHR ''/'')"
    by code_simp
  have h3: "\<forall>k\<le>1. ListByOrg acmeWorld (length ([]::event list) + k)
                (Done acmeWorld (length ([]::event list) + k)) ?client ''acme'' (listOptions k)
              = Inr (?pages k)"
    by (simp add: acmeWorld_def goWorld_def listOptions_def)
  have h4: "\<forall>k<1. ?pages k \<noteq> []" and h5: "?pages 1 = []"
    by simp_all
  have d: "Done acmeWorld 0 = False" "Done acmeWorld 1 = False"
    by (simp_all add: Done_def acmeWorld_def goWorld_def)
  have r: "map toRepo [acmeRepository ''a'', acmeRepository ''b'', acmeRepository ''c'']
      = [\<lparr>Name = ''a'', URL = ''https://github.com/acme/a''\<rparr>,
         \<lparr>Name = ''b'', URL = ''https://github.com/acme/b''\<rparr>,
         \<lparr>Name = ''c'', URL = ''https://github.com/acme/c''\<rparr>]"
    by (simp add: toRepo_def acmeRepository_def GetName_def GetHTMLURL_def)
  have two: "[0..<Suc 1] = [0, 1]"
    by (simp add: upt_rec)
  show ?thesis
    using C4_listReposForOrg_pages[OF h1 h2 h3 h4 h5] h1 d r two
    by (simp add: listOptions_def)
qed

section \<open>Host routing\<close>







section \<open>The URL resolver\<close>

text \<open>
  Claim C1 says that a source URL without a path segment is refused, as the
  message of \<^verbatim>\<open>listRepos\<close> for too many segments announces (expected
  \<^verbatim>\<open>/<org>\<close> or \<^verbatim>\<open>/<org>/<repo>\<close>). The code does otherwise: when the
  trimmed path is empty, \<^verbatim>\<open>Split\<close> still returns one piece, the empty one, so
  \<^verbatim>\<open>listRepos\<close> takes the URL for an organisation and asks the API for the
  repositories of the organisation with the empty name, from page 0.
\<close>

theorem C1_listRepos_without_segment:
  assumes "url_Parse w ghURL = Inr u" and "Trim (Path u) ''/'' = []"
    and "listClient w u token = Inr client"
  shows "listRepos w tr ghURL token = listPages w client [] 0 [] tr"
  using assms by (simp add: listRepos_def listReposForOrg_def)

theorem C1_listRepos_without_segment_witness:
  "url_Parse goWorld ''https://github.com/''
     = Inr (zeroURL\<lparr>Scheme := ''https'', Host := ''github.com'', Path := ''/''\<rparr>)
   \<and> Trim ''/'' ''/'' = []
   \<and> listRepos goWorld [] ''https://github.com/'' ''s3cr3t''
     = Some (Inr [], [Call (ListByOrg_call False \<lparr>authToken = ''s3cr3t'', endpoints = DefaultEndpoints\<rparr>
                        [] \<lparr>Sort = ''updated'', Direction = ''desc'', Page = 0, PerPage = 100\<rparr>)])"
proof -
  let ?u = "zeroURL\<lparr>Scheme := ''https'', Host := ''github.com'', Path := ''/''\<rparr>"
  let ?client = "\<lparr>authToken = ''s3cr3t'', endpoints = DefaultEndpoints\<rparr>"
  have h1: "url_Parse goWorld ''https://github.com/'' = Inr ?u"
    by code_simp
  have t: "Trim ''/'' ''/'' = []"
    by code_simp
  then have h2: "Trim (Path ?u) ''/'' = []"
    by simp
  have h3: "listClient goWorld ?u ''s3cr3t'' = Inr ?client"
    by code_simp
  have pages: "listPages goWorld ?client [] 0 [] []
     = Some (Inr [], [Call (ListByOrg_call False ?client [] 
          \<lparr>Sort = ''updated'', Direction = ''desc'', Page = 0, PerPage = 100\<rparr>)])"
    by code_simp
  show ?thesis
    using C1_listRepos_without_segment[OF h1 h2 h3, of "[]"] h1 t pages by simp
qed

section \<open>One pass of the run loop\<close>

lemma mainLoop_list_failed:
  "listRepos w (tr @ [Stdout (ListingRepos (srcURLFlag f))]) (srcURLFlag f) (srcAccessTokenFlag f)
      = Some (Inl err, tr1)
   \<Longrightarrow> mainLoop w f tr = Some (tr1 @ [Stdout (FailedToList err)], 1)"
  by (subst mainLoop.simps) simp

lemma mainLoop_copy_failed:
  "listRepos w (tr @ [Stdout (ListingRepos (srcURLFlag f))]) (srcURLFlag f) (srcAccessTokenFlag f)
      = Some (Inr repos, tr1)
   \<Longrightarrow> copyRepos w f repos (tr1 @ [Stdout (CopyingRepos (length repos))]) = (Some code, tr2)
   \<Longrightarrow> mainLoop w f tr = Some (tr2, code)"
  by (subst mainLoop.simps) simp

lemma copyRepos_append:
  "copyRepos w f (pre @ post) tr =
     (case copyRepos w f pre tr of
        (Some code, tr') \<Rightarrow> (Some code, tr')
      | (None, tr') \<Rightarrow> copyRepos w f post tr')"
  by (induction pre arbitrary: tr) (auto split: sum.splits prod.splits option.splits)

lemma copyRepos_exit_code: "copyRepos w f repos tr = (Some code, tr') \<Longrightarrow> code = 1"
  by (induction repos arbitrary: tr) (auto split: sum.splits prod.splits option.splits)

text \<open>
  Claim C2, as amended. When \<^verbatim>\<open>url.Parse\<close> refuses the target URL,
  \<^verbatim>\<open>rewriteURL\<close> fails with the wrapped parse error; the loop over the
  repositories prints the failure for the first repository and exits with code 1
  without a single call to the outside, so nothing is mirrored.
\<close>

theorem C2_unparseable_target:
  assumes "url_Parse w (tgtURLFlag f) = Inl err"
  shows "rewriteURL w repo (tgtURLFlag f) = Inl (Wrapped ''failed to parse target URL: '' err)
       \<and> copyRepos w f (repo # repos) tr
           = (Some 1, tr @ [Stdout (FailedToRewrite (URL repo)
                                     (Wrapped ''failed to parse target URL: '' err))])
       \<and> (listRepos w (tr @ [Stdout (ListingRepos (srcURLFlag f))]) (srcURLFlag f)
              (srcAccessTokenFlag f) = Some (Inr (repo # repos), trl) \<longrightarrow>
            mainLoop w f tr
              = Some (trl @ [Stdout (CopyingRepos (length (repo # repos))),
                             Stdout (FailedToRewrite (URL repo)
                                       (Wrapped ''failed to parse target URL: '' err))], 1))"
proof -
  have r: "rewriteURL w repo (tgtURLFlag f) = Inl (Wrapped ''failed to parse target URL: '' err)"
    using assms by (simp add: rewriteURL_def)
  have c: "\<And>tr. copyRepos w f (repo # repos) tr
      = (Some 1, tr @ [Stdout (FailedToRewrite (URL repo)
                                (Wrapped ''failed to parse target URL: '' err))])"
    using r by simp
  show ?thesis
    using r c mainLoop_copy_failed[of w tr f "repo # repos" trl, OF _ c] by simp
qed

theorem C2_unparseable_target_witness:
  "url_Parse goWorld (tgtURLFlag (acmeFlags\<lparr>tgtURLFlag := ''https://git.enterprise.test/%zz''\<rparr>))
     = Inl (Wrapped (''parse '' @ go_Quote ''https://git.enterprise.test/%zz'' @ '': '')
              (EscapeError ''%zz''))
   \<and> copyRepos goWorld (acmeFlags\<lparr>tgtURLFlag := ''https://git.enterprise.test/%zz''\<rparr>)
        [\<lparr>Name = ''a'', URL = ''https://github.com/acme/a''\<rparr>,
         \<lparr>Name = ''b'', URL = ''https://github.com/acme/b''\<rparr>] []
     = (Some 1, [Stdout (FailedToRewrite ''https://github.com/acme/a''
          (Wrapped ''failed to parse target URL: ''
             (Wrapped (''parse '' @ go_Quote ''https://git.enterprise.test/%zz'' @ '': '')
                (EscapeError ''%zz''))))])"
proof -
  let ?f = "acmeFlags\<lparr>tgtURLFlag := ''https://git.enterprise.test/%zz''\<rparr>"
  have h: "url_Parse goWorld (tgtURLFlag ?f)
     = Inl (Wrapped (''parse '' @ go_Quote ''https://git.enterprise.test/%zz'' @ '': '')
              (EscapeError ''%zz''))"
    by code_simp
  show ?thesis
    using C2_unparseable_target[OF h, of "\<lparr>Name = ''a'', URL = ''https://github.com/acme/a''\<rparr>"
        "[\<lparr>Name = ''b'', URL = ''https://github.com/acme/b''\<rparr>]" "[]"] h
    by simp
qed

text \<open>
  A target URL with an empty path is not refused: it parses, the organisation
  segment is empty, and the repository is cloned, created (with an empty owner)
  and pushed to \<^verbatim>\<open>https://git.enterprise.test//a\<close>.
\<close>

theorem C2_empty_path_target_counterexample:
  "url_Parse goWorld ''https://git.enterprise.test''
     = Inr (zeroURL\<lparr>Scheme := ''https'', Host := ''git.enterprise.test'', Path := []\<rparr>)
   \<and> rewriteURL goWorld \<lparr>Name = ''a'', URL = ''https://github.com/acme/a''\<rparr>
        ''https://git.enterprise.test'' = Inr ''https://git.enterprise.test//a''
   \<and> main goWorld (acmeFlags\<lparr>srcURLFlag := ''https://github.com/acme/a'',
                               tgtURLFlag := ''https://git.enterprise.test''\<rparr>)
     = Some ([Stdout (ListingRepos ''https://github.com/acme/a''),
              Stdout (CopyingRepos 1),
              Stdout (Copying ''https://github.com/acme/a'' ''https://git.enterprise.test//a''),
              Call MkdirTemp_call,
              Call (PlainClone_call ''/tmp/src_repo_1''
                \<lparr>clone_URL = ''https://github.com/acme/a'',
                   clone_Auth = \<lparr>Username = ''git'', Password = ''s3cr3t''\<rparr>\<rparr>),
              Call (Create_call False
                \<lparr>authToken = ''t0k3n'', endpoints =
                   EnterpriseURLs ''https://git.enterprise.test'' ''https://git.enterprise.test''\<rparr>
                []
                \<lparr>Name_ptr = Some ''a'', HTMLURL_ptr = None,
                   Description_ptr = Some ''Mirror of https://github.com/acme/a'',
                   Visibility_ptr = Some ''public''\<rparr>),
              Call (Push_call ''/tmp/src_repo_1''
                \<lparr>RemoteURL = ''https://git.enterprise.test//a'',
                   push_Auth = \<lparr>Username = ''git'', Password = ''t0k3n''\<rparr>,
                   Force = True, FollowTags = True\<rparr>)], 0)"
  by code_simp

text \<open>
  Claim C8. A failed listing prints its error and ends the process with exit code
  1. In the loop over the repositories, when the repositories \<open>pre\<close> were copied
  and the next one fails, in \<^verbatim>\<open>rewriteURL\<close> or in \<^verbatim>\<open>copy\<close>, the failure is
  printed after the events so far and the loop ends with exit code 1, whatever
  repositories \<open>post\<close> are left: none of them is attempted. The process then exits
  with that code, which is always 1.
\<close>

theorem C8_errors_end_the_process:
  "(listRepos w (tr @ [Stdout (ListingRepos (srcURLFlag f))]) (srcURLFlag f)
       (srcAccessTokenFlag f) = Some (Inl err, trl)
     \<longrightarrow> mainLoop w f tr = Some (trl @ [Stdout (FailedToList err)], 1))
   \<and> (copyRepos w f pre trc = (None, trc') \<and> rewriteURL w repo (tgtURLFlag f) = Inl err
     \<longrightarrow> copyRepos w f (pre @ repo # post) trc
           = (Some 1, trc' @ [Stdout (FailedToRewrite (URL repo) err)]))
   \<and> (copyRepos w f pre trc = (None, trc') \<and> rewriteURL w repo (tgtURLFlag f) = Inr tgt
       \<and> copy w (trc' @ [Stdout (Copying (URL repo) tgt)]) (srcAccessTokenFlag f) (URL repo)
            (tgtAccessTokenFlag f) tgt (tgtVisibilityFlag f) = (Some err, trc'')
     \<longrightarrow> copyRepos w f (pre @ repo # post) trc
           = (Some 1, trc'' @ [Stdout (FailedToCopy err)]))
   \<and> (listRepos w (tr @ [Stdout (ListingRepos (srcURLFlag f))]) (srcURLFlag f)
       (srcAccessTokenFlag f) = Some (Inr repos, trl)
       \<and> copyRepos w f repos (trl @ [Stdout (CopyingRepos (length repos))]) = (Some code, trf)
     \<longrightarrow> mainLoop w f tr = Some (trf, code) \<and> code = 1)"
  by (auto simp: mainLoop_list_failed mainLoop_copy_failed copyRepos_append
        dest: copyRepos_exit_code)

theorem C8_errors_end_the_process_witness:
  "mainLoop failWorld acmeFlags []
     = Some ([Stdout (ListingRepos ''https://github.com/acme''),
              Call (ListByOrg_call False \<lparr>authToken = ''s3cr3t'', endpoints = DefaultEndpoints\<rparr>
                      ''acme'' \<lparr>Sort = ''updated'', Direction = ''desc'', Page = 0, PerPage = 100\<rparr>),
              Call (ListByOrg_call False \<lparr>authToken = ''s3cr3t'', endpoints = DefaultEndpoints\<rparr>
                      ''acme'' \<lparr>Sort = ''updated'', Direction = ''desc'', Page = 1, PerPage = 100\<rparr>),
              Stdout (CopyingRepos 3),
              Stdout (Copying ''https://github.com/acme/a'' ''https://git.enterprise.test/widgets/a''),
              Call MkdirTemp_call,
              Call (PlainClone_call ''/tmp/src_repo_1''
                \<lparr>clone_URL = ''https://github.com/acme/a'',
                   clone_Auth = \<lparr>Username = ''git'', Password = ''s3cr3t''\<rparr>\<rparr>),
              Call (Create_call False
                \<lparr>authToken = ''t0k3n'', endpoints =
                   EnterpriseURLs ''https://git.enterprise.test'' ''https://git.enterprise.test''\<rparr>
                ''widgets''
                \<lparr>Name_ptr = Some ''a'', HTMLURL_ptr = None,
                   Description_ptr = Some ''Mirror of https://github.com/acme/a'',
                   Visibility_ptr = Some ''public''\<rparr>),
              Call (Push_call ''/tmp/src_repo_1''
                \<lparr>RemoteURL = ''https://git.enterprise.test/widgets/a'',
                   push_Auth = \<lparr>Username = ''git'', Password = ''t0k3n''\<rparr>,
                   Force = True, FollowTags = True\<rparr>),
              Stdout (Copying ''https://github.com/acme/b'' ''https://git.enterprise.test/widgets/b''),
              Call MkdirTemp_call,
              Call (PlainClone_call ''/tmp/src_repo_1''
                \<lparr>clone_URL = ''https://github.com/acme/b'',
                   clone_Auth = \<lparr>Username = ''git'', Password = ''s3cr3t''\<rparr>\<rparr>),
              Stdout (FailedToCopy (Wrapped ''failed to clone: ''
                                      (ErrorString ''authentication required'')))], 1)"
proof -
  let ?a = "\<lparr>Name = ''a'', URL = ''https://github.com/acme/a''\<rparr>"
  let ?b = "\<lparr>Name = ''b'', URL = ''https://github.com/acme/b''\<rparr>"
  let ?c = "\<lparr>Name = ''c'', URL = ''https://github.com/acme/c''\<rparr>"
  let ?client = "\<lparr>authToken = ''s3cr3t'', endpoints = DefaultEndpoints\<rparr>"
  let ?tr1 = "[Stdout (ListingRepos ''https://github.com/acme''),
      Call (ListByOrg_call False ?client ''acme''
              \<lparr>Sort = ''updated'', Direction = ''desc'', Page = 0, PerPage = 100\<rparr>),
      Call (ListByOrg_call False ?client ''acme''
              \<lparr>Sort = ''updated'', Direction = ''desc'', Page = 1, PerPage = 100\<rparr>)]"
  let ?trc = "?tr1 @ [Stdout (CopyingRepos (length [?a, ?b, ?c]))]"
  let ?trc' = "?trc @ [Stdout (Copying ''https://github.com/acme/a'' ''https://git.enterprise.test/widgets/a''),
      Call MkdirTemp_call,
      Call (PlainClone_call ''/tmp/src_repo_1''
        \<lparr>clone_URL = ''https://github.com/acme/a'',
           clone_Auth = \<lparr>Username = ''git'', Password = ''s3cr3t''\<rparr>\<rparr>),
      Call (Create_call False
        \<lparr>authToken = ''t0k3n'', endpoints =
           EnterpriseURLs ''https://git.enterprise.test'' ''https://git.enterprise.test''\<rparr>
        ''widgets''
        \<lparr>Name_ptr = Some ''a'', HTMLURL_ptr = None,
           Description_ptr = Some ''Mirror of https://github.com/acme/a'',
           Visibility_ptr = Some ''public''\<rparr>),
      Call (Push_call ''/tmp/src_repo_1''
        \<lparr>RemoteURL = ''https://git.enterprise.test/widgets/a'',
           push_Auth = \<lparr>Username = ''git'', Password = ''t0k3n''\<rparr>,
           Force = True, FollowTags = True\<rparr>)]"
  let ?tgt = "''https://git.enterprise.test/widgets/b''"
  let ?err = "Wrapped ''failed to clone: '' (ErrorString ''authentication required'')"
  let ?trc'' = "?trc' @ [Stdout (Copying ''https://github.com/acme/b'' ?tgt),
      Call MkdirTemp_call,
      Call (PlainClone_call ''/tmp/src_repo_1''
        \<lparr>clone_URL = ''https://github.com/acme/b'',
           clone_Auth = \<lparr>Username = ''git'', Password = ''s3cr3t''\<rparr>\<rparr>)]"
  have listed: "listRepos failWorld ([] @ [Stdout (ListingRepos (srcURLFlag acmeFlags))])
      (srcURLFlag acmeFlags) (srcAccessTokenFlag acmeFlags) = Some (Inr [?a, ?b, ?c], ?tr1)"
    by code_simp
  have copied: "copyRepos failWorld acmeFlags [?a] ?trc = (None, ?trc')"
    by code_simp
  have mapped: "rewriteURL failWorld ?b (tgtURLFlag acmeFlags) = Inr ?tgt"
    by code_simp
  have failed: "copy failWorld (?trc' @ [Stdout (Copying (URL ?b) ?tgt)])
      (srcAccessTokenFlag acmeFlags) (URL ?b) (tgtAccessTokenFlag acmeFlags) ?tgt
      (tgtVisibilityFlag acmeFlags) = (Some ?err, ?trc'')"
    by code_simp
  have stop: "copyRepos failWorld acmeFlags ([?a] @ ?b # [?c]) ?trc
      = (Some 1, ?trc'' @ [Stdout (FailedToCopy ?err)])"
    using C8_errors_end_the_process[where w = failWorld and f = acmeFlags and pre = "[?a]"
        and trc = ?trc and trc' = ?trc' and repo = ?b and post = "[?c]" and tgt = ?tgt
        and err = ?err and trc'' = ?trc''] copied mapped failed
    by blast
  have "mainLoop failWorld acmeFlags [] = Some (?trc'' @ [Stdout (FailedToCopy ?err)], 1)"
    using C8_errors_end_the_process[where w = failWorld and f = acmeFlags and tr = "[]"
        and repos = "[?a, ?b, ?c]" and trl = ?tr1 and code = 1
        and trf = "?trc'' @ [Stdout (FailedToCopy ?err)]"] listed stop
    by simp
  then show ?thesis by simp
qed

section \<open>The mirror operation\<close>

text \<open>
  Claim C7. Let staging, the clone, the parse of the target and the choice of the
  client succeed, and let \<open>created\<close> and \<open>pushed\<close> be the answers to
  \<^verbatim>\<open>Repositories.Create\<close> and \<^verbatim>\<open>Push\<close>. If creation succeeded or failed
  with a message containing \<^verbatim>\<open>name already exists on this account\<close>, and the
  push succeeded or failed with \<^verbatim>\<open>NoErrAlreadyUpToDate\<close>, then \<^verbatim>\<open>copy\<close>
  returns no error, after the push. Any other creation error ends \<^verbatim>\<open>copy\<close>
  with that error before any push; any other push error ends it with that error.
  The witness mirrors one repository twice in a row: the second time the
  repository exists and nothing is new, and both runs succeed.
\<close>

theorem C7_copy_outcomes:
  assumes "MkdirTemp w (length tr) = Inr dir"
    and "PlainClone w (Suc (length tr)) dir
           \<lparr>clone_URL = src, clone_Auth = \<lparr>Username = ''git'', Password = srcAccessToken\<rparr>\<rparr> = None"
    and "url_Parse w tgt = Inr u"
    and "copyClient w u tgtAccessToken = Inr client"
    and "repository = \<lparr>Name_ptr = Some (Trim (snd (path_Split (Path u))) ''/''), HTMLURL_ptr = None,
           Description_ptr = Some (''Mirror of '' @ src), Visibility_ptr = Some tgtVisibility\<rparr>"
    and "owner = Trim (fst (path_Split (Path u))) ''/''"
    and "Create w (length tr + 2) (Done w (length tr + 2)) client owner repository = created"
    and "pushOptions = \<lparr>RemoteURL = tgt, push_Auth = \<lparr>Username = ''git'', Password = tgtAccessToken\<rparr>,
           Force = True, FollowTags = True\<rparr>"
    and "Push w (length tr + 3) dir pushOptions = pushed"
    and "calls = [Call MkdirTemp_call,
           Call (PlainClone_call dir
             \<lparr>clone_URL = src, clone_Auth = \<lparr>Username = ''git'', Password = srcAccessToken\<rparr>\<rparr>),
           Call (Create_call (Done w (length tr + 2)) client owner repository)]"
  shows "((created = None \<or> (\<exists>e. created = Some e
               \<and> Contains (Error e) ''name already exists on this account''))
          \<and> (pushed = None \<or> (\<exists>e. pushed = Some e \<and> errors_Is e NoErrAlreadyUpToDate))
          \<longrightarrow> copy w tr srcAccessToken src tgtAccessToken tgt tgtVisibility
                = (None, tr @ calls @ [Call (Push_call dir pushOptions)]))
       \<and> (\<forall>e. created = Some e \<and> \<not> Contains (Error e) ''name already exists on this account''
          \<longrightarrow> copy w tr srcAccessToken src tgtAccessToken tgt tgtVisibility
                = (Some (Wrapped ''failed to create target repo: '' e), tr @ calls))
       \<and> (\<forall>e. (created = None \<or> (\<exists>e'. created = Some e'
               \<and> Contains (Error e') ''name already exists on this account''))
          \<and> pushed = Some e \<and> \<not> errors_Is e NoErrAlreadyUpToDate
          \<longrightarrow> copy w tr srcAccessToken src tgtAccessToken tgt tgtVisibility
                = (Some (Wrapped ''failed to push to target: '' e),
                   tr @ calls @ [Call (Push_call dir pushOptions)]))"
proof -
  note names = assms(5,6,8,10)
  have c: "Create w (Suc (Suc (length tr))) (Done w (Suc (Suc (length tr)))) client owner repository
      = created"
    using assms(7) by simp
  have p: "Push w (Suc (Suc (Suc (length tr)))) dir pushOptions = pushed"
    using assms(9) by (simp add: numeral_3_eq_3)
  show ?thesis
    using assms(1-4) c p unfolding names
    by (cases created; cases pushed) (simp_all add: copy_def Let_def)
qed

theorem C7_copy_outcomes_witness:
  "Create twiceWorld 6 (Done twiceWorld 6)
      \<lparr>authToken = ''t0k3n'', endpoints =
         EnterpriseURLs ''https://git.enterprise.test'' ''https://git.enterprise.test''\<rparr>
      ''widgets''
      \<lparr>Name_ptr = Some ''a'', HTMLURL_ptr = None,
         Description_ptr = Some ''Mirror of https://github.com/acme/a'',
         Visibility_ptr = Some ''public''\<rparr> = Some alreadyExistsError
   \<and> Contains (Error alreadyExistsError) ''name already exists on this account''
   \<and> Push twiceWorld 7 ''/tmp/src_repo_1''
        \<lparr>RemoteURL = ''https://git.enterprise.test/widgets/a'',
           push_Auth = \<lparr>Username = ''git'', Password = ''t0k3n''\<rparr>,
           Force = True, FollowTags = True\<rparr> = Some NoErrAlreadyUpToDate
   \<and> errors_Is NoErrAlreadyUpToDate NoErrAlreadyUpToDate
   \<and> fst (copy twiceWorld [] ''s3cr3t'' ''https://github.com/acme/a'' ''t0k3n''
             ''https://git.enterprise.test/widgets/a'' ''public'') = None
   \<and> length (snd (copy twiceWorld [] ''s3cr3t'' ''https://github.com/acme/a'' ''t0k3n''
             ''https://git.enterprise.test/widgets/a'' ''public'')) = 4
   \<and> copy twiceWorld
        (snd (copy twiceWorld [] ''s3cr3t'' ''https://github.com/acme/a'' ''t0k3n''
               ''https://git.enterprise.test/widgets/a'' ''public''))
        ''s3cr3t'' ''https://github.com/acme/a'' ''t0k3n''
        ''https://git.enterprise.test/widgets/a'' ''public''
      = (None,
         snd (copy twiceWorld [] ''s3cr3t'' ''https://github.com/acme/a'' ''t0k3n''
               ''https://git.enterprise.test/widgets/a'' ''public'')
         @ [Call MkdirTemp_call,
            Call (PlainClone_call ''/tmp/src_repo_1''
              \<lparr>clone_URL = ''https://github.com/acme/a'',
                 clone_Auth = \<lparr>Username = ''git'', Password = ''s3cr3t''\<rparr>\<rparr>),
            Call (Create_call False
              \<lparr>authToken = ''t0k3n'', endpoints =
                 EnterpriseURLs ''https://git.enterprise.test'' ''https://git.enterprise.test''\<rparr>
              ''widgets''
              \<lparr>Name_ptr = Some ''a'', HTMLURL_ptr = None,
                 Description_ptr = Some ''Mirror of https://github.com/acme/a'',
                 Visibility_ptr = Some ''public''\<rparr>),
            Call (Push_call ''/tmp/src_repo_1''
              \<lparr>RemoteURL = ''https://git.enterprise.test/widgets/a'',
                 push_Auth = \<lparr>Username = ''git'', Password = ''t0k3n''\<rparr>,
                 Force = True, FollowTags = True\<rparr>)])"
proof -
  let ?src = "''https://github.com/acme/a''"
  let ?tgt = "''https://git.enterprise.test/widgets/a''"
  let ?dir = "''/tmp/src_repo_1''"
  let ?u = "zeroURL\<lparr>Scheme := ''https'', Host := ''git.enterprise.test'', Path := ''/widgets/a''\<rparr>"
  let ?client = "\<lparr>authToken = ''t0k3n'', endpoints =
         EnterpriseURLs ''https://git.enterprise.test'' ''https://git.enterprise.test''\<rparr>"
  let ?tr1 = "snd (copy twiceWorld [] ''s3cr3t'' ?src ''t0k3n'' ?tgt ''public'')"
  have len: "length ?tr1 = 4"
    by code_simp
  have parsed: "url_Parse twiceWorld ?tgt = Inr ?u"
    by code_simp
  have client: "copyClient twiceWorld ?u ''t0k3n'' = Inr ?client"
    by code_simp
  have owner: "Trim (fst (path_Split (Path ?u))) ''/'' = ''widgets''"
    and name: "Trim (snd (path_Split (Path ?u))) ''/'' = ''a''"
    by code_simp+
  have staged: "\<And>tr. MkdirTemp twiceWorld (length tr) = Inr ?dir"
    and cloned: "\<And>tr. PlainClone twiceWorld (Suc (length tr)) ?dir
        \<lparr>clone_URL = ?src, clone_Auth = \<lparr>Username = ''git'', Password = ''s3cr3t''\<rparr>\<rparr> = None"
    by (simp_all add: twiceWorld_def goWorld_def)
  have created1: "\<And>c ow r. Create twiceWorld (length ([]::event list) + 2)
        (Done twiceWorld (length ([]::event list) + 2)) c ow r = None"
    and pushed1: "\<And>d opts. Push twiceWorld (length ([]::event list) + 3) d opts = None"
    by (simp_all add: twiceWorld_def goWorld_def)
  have created2: "\<And>c ow r. Create twiceWorld (length ?tr1 + 2)
        (Done twiceWorld (length ?tr1 + 2)) c ow r = Some alreadyExistsError"
    and pushed2: "\<And>d opts. Push twiceWorld (length ?tr1 + 3) d opts = Some NoErrAlreadyUpToDate"
    unfolding len by (simp_all add: twiceWorld_def goWorld_def)
  have exists: "Contains (Error alreadyExistsError) ''name already exists on this account''"
    by code_simp
  have notdone: "\<And>n. Done twiceWorld n = False"
    by (simp add: Done_def twiceWorld_def goWorld_def)
  have first: "fst (copy twiceWorld [] ''s3cr3t'' ?src ''t0k3n'' ?tgt ''public'') = None"
    using C7_copy_outcomes[OF staged cloned parsed client refl refl created1 refl pushed1 refl,
        of "''public''"]
    by simp
  have second: "copy twiceWorld ?tr1 ''s3cr3t'' ?src ''t0k3n'' ?tgt ''public''
      = (None, ?tr1 @ [Call MkdirTemp_call,
            Call (PlainClone_call ?dir
              \<lparr>clone_URL = ?src, clone_Auth = \<lparr>Username = ''git'', Password = ''s3cr3t''\<rparr>\<rparr>),
            Call (Create_call False ?client ''widgets''
              \<lparr>Name_ptr = Some ''a'', HTMLURL_ptr = None,
                 Description_ptr = Some ''Mirror of https://github.com/acme/a'',
                 Visibility_ptr = Some ''public''\<rparr>),
            Call (Push_call ?dir
              \<lparr>RemoteURL = ?tgt, push_Auth = \<lparr>Username = ''git'', Password = ''t0k3n''\<rparr>,
                 Force = True, FollowTags = True\<rparr>)])"
    using C7_copy_outcomes[OF staged cloned parsed client refl refl created2 refl pushed2 refl,
        of "''public''"] exists owner name notdone
    by simp
  have c6: "Create twiceWorld 6 (Done twiceWorld 6) ?client ''widgets''
      \<lparr>Name_ptr = Some ''a'', HTMLURL_ptr = None,
         Description_ptr = Some ''Mirror of https://github.com/acme/a'',
         Visibility_ptr = Some ''public''\<rparr> = Some alreadyExistsError"
    and p7: "Push twiceWorld 7 ?dir
        \<lparr>RemoteURL = ?tgt, push_Auth = \<lparr>Username = ''git'', Password = ''t0k3n''\<rparr>,
           Force = True, FollowTags = True\<rparr> = Some NoErrAlreadyUpToDate"
    by (simp_all add: twiceWorld_def goWorld_def)
  show ?thesis
    using c6 exists p7 first len second by simp
qed

section \<open>Two runs with the same answers\<close>

text \<open>
  When the outside answers two runs alike, the runs make their calls at the same
  moments, print the same and end the same. The page loop and the run loop are
  partial functions; for each, a run that returns is followed step by step, and
  the run that does not return follows from the symmetry of the relation.
\<close>

lemma stdout_append: "stdout (a @ b) = stdout a @ stdout b"
  by (induction a rule: stdout.induct) auto

lemma sameRun_sym: "sameRun a b \<Longrightarrow> sameRun b a"
  by (auto simp: sameRun_def split: option.splits prod.splits)

lemma sameRun_observed: "sameRun a b \<Longrightarrow> observed b = observed a"
  by (auto simp: sameRun_def observed_def split: option.splits prod.splits)

lemma stdout_Call [simp]: "stdout (tr @ [Call c]) = stdout tr"
  by (simp add: stdout_append)

lemma stdout_Stdout [simp]: "stdout (tr @ [Stdout p]) = stdout tr @ [p]"
  by (simp add: stdout_append)

lemma listPages_sim_Some:
  assumes ans: "\<And>n org opts. ListByOrg w' n (Done w' n) c' org opts = ListByOrg w n (Done w n) c org opts"
    and run: "listPages w c org i repos tr = Some y"
  shows "\<forall>tr'. length tr' = length tr \<longrightarrow> stdout tr' = stdout tr \<longrightarrow>
           (\<exists>x'. listPages w' c' org i repos tr' = Some (fst y, x')
                 \<and> length x' = length (snd y) \<and> stdout x' = stdout (snd y))"
proof -
  define P where "P = (\<lambda>w0 c0 org i repos tr y. w0 = w \<longrightarrow> c0 = c \<longrightarrow>
     (\<forall>tr'. length tr' = length tr \<longrightarrow> stdout tr' = stdout tr \<longrightarrow>
           (\<exists>x'. listPages w' c' org i repos tr' = Some (fst y, x')
                 \<and> length x' = length (snd y) \<and> stdout x' = stdout (snd y))))"
  have "P w c org i repos tr y"
  proof (rule listPages.raw_induct[where P = P, OF _ run])
    fix lp w0 c0 org i repos tr y
    assume IH: "\<And>w0 c0 org i repos tr y. lp w0 c0 org i repos tr = Some y \<Longrightarrow> P w0 c0 org i repos tr y"
      and step: "(case ListByOrg w0 (length tr) (Done w0 (length tr)) c0 org (listOptions i) of
        Inl err \<Rightarrow>
          Some (Inl (Wrapped ''failed to list repos: '' err),
                tr @ [Call (ListByOrg_call (Done w0 (length tr)) c0 org (listOptions i))])
      | Inr r \<Rightarrow>
          if length r = 0
          then Some (Inr repos,
                tr @ [Call (ListByOrg_call (Done w0 (length tr)) c0 org (listOptions i))])
          else lp w0 c0 org (i + 1) (repos @ map toRepo r)
                 (tr @ [Call (ListByOrg_call (Done w0 (length tr)) c0 org (listOptions i))])) = Some y"
    show "P w0 c0 org i repos tr y"
      unfolding P_def
    proof (intro impI allI)
      fix tr'
      assume w0: "w0 = w" and c0: "c0 = c"
        and len: "length tr' = length tr" and out: "stdout tr' = stdout tr"
      let ?call = "Call (ListByOrg_call (Done w (length tr)) c org (listOptions i))"
      let ?call' = "Call (ListByOrg_call (Done w' (length tr')) c' org (listOptions i))"
      have same: "ListByOrg w' (length tr') (Done w' (length tr')) c' org (listOptions i)
          = ListByOrg w (length tr) (Done w (length tr)) c org (listOptions i)"
        using ans len by simp
      show "\<exists>x'. listPages w' c' org i repos tr' = Some (fst y, x')
                 \<and> length x' = length (snd y) \<and> stdout x' = stdout (snd y)"
      proof (cases "ListByOrg w (length tr) (Done w (length tr)) c org (listOptions i)")
        case (Inl err)
        then have y: "y = (Inl (Wrapped ''failed to list repos: '' err), tr @ [?call])"
          using step w0 c0 by simp
        have "listPages w' c' org i repos tr'
            = Some (Inl (Wrapped ''failed to list repos: '' err), tr' @ [?call'])"
          using same Inl by (subst listPages.simps) simp
        then show ?thesis using y len out by simp
      next
        case (Inr r)
        show ?thesis
        proof (cases "r = []")
          case True
          then have y: "y = (Inr repos, tr @ [?call])"
            using step w0 c0 Inr by simp
          have "listPages w' c' org i repos tr' = Some (Inr repos, tr' @ [?call'])"
            using same Inr True by (subst listPages.simps) simp
          then show ?thesis using y len out by simp
        next
          case False
          then have "lp w c org (i + 1) (repos @ map toRepo r) (tr @ [?call]) = Some y"
            using step w0 c0 Inr by simp
          then have "P w c org (i + 1) (repos @ map toRepo r) (tr @ [?call]) y"
            by (rule IH)
          then have "\<forall>tr'. length tr' = length (tr @ [?call]) \<longrightarrow>
              stdout tr' = stdout (tr @ [?call]) \<longrightarrow>
              (\<exists>x'. listPages w' c' org (i + 1) (repos @ map toRepo r) tr' = Some (fst y, x')
                 \<and> length x' = length (snd y) \<and> stdout x' = stdout (snd y))"
            unfolding P_def by simp
          from this[rule_format, of "tr' @ [?call']"] obtain x' where
            x': "listPages w' c' org (i + 1) (repos @ map toRepo r) (tr' @ [?call']) = Some (fst y, x')"
              "length x' = length (snd y)" "stdout x' = stdout (snd y)"
            using len out by auto
          have "listPages w' c' org i repos tr'
              = listPages w' c' org (i + 1) (repos @ map toRepo r) (tr' @ [?call'])"
            using same Inr False by (subst listPages.simps) simp
          then show ?thesis using x' by simp
        qed
      qed
    qed
  qed
  then show ?thesis unfolding P_def by simp
qed

lemma listPages_sim:
  assumes "\<And>n org opts. ListByOrg w' n (Done w' n) c' org opts = ListByOrg w n (Done w n) c org opts"
    and "length tr' = length tr" and "stdout tr' = stdout tr"
  shows "sameRun (listPages w c org i repos tr) (listPages w' c' org i repos tr')"
proof (cases "listPages w c org i repos tr")
  case None
  have "listPages w' c' org i repos tr' = None"
  proof (rule ccontr)
    assume "listPages w' c' org i repos tr' \<noteq> None"
    then obtain y where y: "listPages w' c' org i repos tr' = Some y" by auto
    have "\<exists>x. listPages w c org i repos tr = Some (fst y, x)
        \<and> length x = length (snd y) \<and> stdout x = stdout (snd y)"
      using listPages_sim_Some[where w = w' and w' = w and c = c' and c' = c,
          OF assms(1)[symmetric] y] assms(2,3) by simp
    then show False using None by simp
  qed
  then show ?thesis using None by (simp add: sameRun_def)
next
  case (Some y)
  then show ?thesis
    using listPages_sim_Some[where w = w and w' = w' and c = c and c' = c',
        OF assms(1) Some] assms(2,3)
    by (cases y) (simp add: sameRun_def)
qed


lemma listClient_sim:
  assumes "WithEnterpriseURLs_err w' = WithEnterpriseURLs_err w"
  shows "(\<exists>err. listClient w u s = Inl err \<and> listClient w' u s' = Inl err)
       \<or> (\<exists>e. listClient w u s = Inr \<lparr>authToken = s, endpoints = e\<rparr>
              \<and> listClient w' u s' = Inr \<lparr>authToken = s', endpoints = e\<rparr>)"
  using assms
  by (cases "WithEnterpriseURLs_err w (Scheme u @ ''://'' @ ToLower (Hostname u))
               (Scheme u @ ''://'' @ ToLower (Hostname u))")
     (simp_all add: listClient_def Let_def WithEnterpriseURLs_def NewClient_WithAuthToken_def)

lemma copyClient_is_listClient: "copyClient w u token = listClient w u token"
  by (simp add: copyClient_def listClient_def)

lemma listReposForOrg_sim:
  assumes sa: "sameAnswers w s t w' s' t'"
    and len: "length tr' = length tr" and out: "stdout tr' = stdout tr"
  shows "sameRun (listReposForOrg w tr u s) (listReposForOrg w' tr' u s')"
proof -
  have ent: "WithEnterpriseURLs_err w' = WithEnterpriseURLs_err w"
    using sa by (simp add: sameAnswers_def)
  from listClient_sim[OF ent, of u s s'] show ?thesis
  proof
    assume "\<exists>err. listClient w u s = Inl err \<and> listClient w' u s' = Inl err"
    then show ?thesis using len out by (auto simp: listReposForOrg_def sameRun_def)
  next
    assume "\<exists>e. listClient w u s = Inr \<lparr>authToken = s, endpoints = e\<rparr>
              \<and> listClient w' u s' = Inr \<lparr>authToken = s', endpoints = e\<rparr>"
    then obtain e where c: "listClient w u s = Inr \<lparr>authToken = s, endpoints = e\<rparr>"
      "listClient w' u s' = Inr \<lparr>authToken = s', endpoints = e\<rparr>" by blast
    have ans: "\<And>n org opts.
        ListByOrg w' n (Done w' n) \<lparr>authToken = s', endpoints = e\<rparr> org opts
          = ListByOrg w n (Done w n) \<lparr>authToken = s, endpoints = e\<rparr> org opts"
      using sa by (simp add: sameAnswers_def)
    show ?thesis
      using listPages_sim[OF ans len out] c by (simp add: listReposForOrg_def)
  qed
qed

lemma listRepos_sim:
  assumes sa: "sameAnswers w s t w' s' t'"
    and len: "length tr' = length tr" and out: "stdout tr' = stdout tr"
  shows "sameRun (listRepos w tr ghURL s) (listRepos w' tr' ghURL s')"
proof -
  have p: "url_Parse w' = url_Parse w" and q: "Quote w' = Quote w"
    using sa by (simp_all add: sameAnswers_def)
  show ?thesis
  proof (cases "url_Parse w ghURL")
    case (Inl err)
    then show ?thesis using p len out by (simp add: listRepos_def sameRun_def)
  next
    case (Inr u)
    then show ?thesis
      using p q len out listReposForOrg_sim[OF sa len out, of u]
      by (simp add: listRepos_def Let_def sameRun_def)
  qed
qed

lemma copy_sim:
  assumes sa: "sameAnswers w s t w' s' t'"
    and len: "length tr' = length tr" and out: "stdout tr' = stdout tr"
  shows "fst (copy w' tr' s' src t' tgt vis) = fst (copy w tr s src t tgt vis)
       \<and> length (snd (copy w' tr' s' src t' tgt vis)) = length (snd (copy w tr s src t tgt vis))
       \<and> stdout (snd (copy w' tr' s' src t' tgt vis)) = stdout (snd (copy w tr s src t tgt vis))"
proof -
  have p: "url_Parse w' = url_Parse w" and ent: "WithEnterpriseURLs_err w' = WithEnterpriseURLs_err w"
    and mk: "MkdirTemp w' = MkdirTemp w"
    and cl: "\<And>n dir. PlainClone w' n dir \<lparr>clone_URL = src,
                clone_Auth = \<lparr>Username = ''git'', Password = s'\<rparr>\<rparr>
              = PlainClone w n dir \<lparr>clone_URL = src,
                clone_Auth = \<lparr>Username = ''git'', Password = s\<rparr>\<rparr>"
    and cr: "\<And>n e owner r. Create w' n (Done w' n) \<lparr>authToken = t', endpoints = e\<rparr> owner r
              = Create w n (Done w n) \<lparr>authToken = t, endpoints = e\<rparr> owner r"
    and pu: "\<And>n dir. Push w' n dir \<lparr>RemoteURL = tgt,
                push_Auth = \<lparr>Username = ''git'', Password = t'\<rparr>, Force = True, FollowTags = True\<rparr>
              = Push w n dir \<lparr>RemoteURL = tgt,
                push_Auth = \<lparr>Username = ''git'', Password = t\<rparr>, Force = True, FollowTags = True\<rparr>"
    using sa by (simp_all add: sameAnswers_def)
  show ?thesis
  proof (cases "MkdirTemp w (length tr)")
    case (Inl err)
    then show ?thesis using mk len out by (simp add: copy_def Let_def stdout_append)
  next
    case dir: (Inr dir)
    show ?thesis
    proof (cases "PlainClone w (Suc (length tr)) dir
        \<lparr>clone_URL = src, clone_Auth = \<lparr>Username = ''git'', Password = s\<rparr>\<rparr>")
      case (Some err)
      then show ?thesis using dir mk cl len out by (simp add: copy_def Let_def stdout_append)
    next
      case cloned: None
      show ?thesis
      proof (cases "url_Parse w tgt")
        case (Inl err)
        then show ?thesis using dir cloned mk cl p len out by (simp add: copy_def Let_def stdout_append)
      next
        case u: (Inr u)
        from listClient_sim[OF ent, of u t t'] show ?thesis
        proof
          assume "\<exists>err. listClient w u t = Inl err \<and> listClient w' u t' = Inl err"
          then show ?thesis
            using dir cloned u mk cl p len out
            by (auto simp: copy_def Let_def copyClient_is_listClient stdout_append)
        next
          assume "\<exists>e. listClient w u t = Inr \<lparr>authToken = t, endpoints = e\<rparr>
              \<and> listClient w' u t' = Inr \<lparr>authToken = t', endpoints = e\<rparr>"
          then obtain e where c: "copyClient w u t = Inr \<lparr>authToken = t, endpoints = e\<rparr>"
            "copyClient w' u t' = Inr \<lparr>authToken = t', endpoints = e\<rparr>"
            by (auto simp: copyClient_is_listClient)
          show ?thesis
            using dir cloned u c mk cl p cr pu len out
            by (simp add: copy_def Let_def stdout_append)
        qed
      qed
    qed
  qed
qed

lemma rewriteURL_sim:
  "sameAnswers w s t w' s' t' \<Longrightarrow> rewriteURL w' r tgt = rewriteURL w r tgt"
  by (simp add: sameAnswers_def rewriteURL_def split: sum.splits)

lemma copyRepos_sim:
  assumes sa: "sameAnswers w (srcAccessTokenFlag f) (tgtAccessTokenFlag f)
                 w' (srcAccessTokenFlag f') (tgtAccessTokenFlag f')"
    and tgt: "tgtURLFlag f' = tgtURLFlag f" and vis: "tgtVisibilityFlag f' = tgtVisibilityFlag f"
  shows "length tr' = length tr \<Longrightarrow> stdout tr' = stdout tr \<Longrightarrow>
         fst (copyRepos w' f' repos tr') = fst (copyRepos w f repos tr)
       \<and> length (snd (copyRepos w' f' repos tr')) = length (snd (copyRepos w f repos tr))
       \<and> stdout (snd (copyRepos w' f' repos tr')) = stdout (snd (copyRepos w f repos tr))"
proof (induction repos arbitrary: tr tr')
  case Nil
  then show ?case by simp
next
  case (Cons repo repos)
  show ?case
  proof (cases "rewriteURL w repo (tgtURLFlag f)")
    case (Inl err)
    then show ?thesis
      using rewriteURL_sim[OF sa] tgt Cons.prems by simp
  next
    case (Inr dst)
    let ?c = "copy w (tr @ [Stdout (Copying (URL repo) dst)]) (srcAccessTokenFlag f) (URL repo)
                (tgtAccessTokenFlag f) dst (tgtVisibilityFlag f)"
    let ?c' = "copy w' (tr' @ [Stdout (Copying (URL repo) dst)]) (srcAccessTokenFlag f') (URL repo)
                (tgtAccessTokenFlag f') dst (tgtVisibilityFlag f)"
    have sim: "fst ?c' = fst ?c \<and> length (snd ?c') = length (snd ?c)
        \<and> stdout (snd ?c') = stdout (snd ?c)"
      by (rule copy_sim[OF sa]) (use Cons.prems in simp_all)
    show ?thesis
    proof (cases "fst ?c")
      case None
      then have "copyRepos w f (repo # repos) tr = copyRepos w f repos (snd ?c)"
        using Inr by (cases ?c) simp
      moreover have "copyRepos w' f' (repo # repos) tr' = copyRepos w' f' repos (snd ?c')"
        using Inr None sim rewriteURL_sim[OF sa] tgt vis by (cases ?c') simp
      ultimately show ?thesis
        using Cons.IH[of "snd ?c'" "snd ?c"] sim by simp
    next
      case (Some err)
      then have "copyRepos w f (repo # repos) tr = (Some 1, snd ?c @ [Stdout (FailedToCopy err)])"
        using Inr by (cases ?c) simp
      moreover have "copyRepos w' f' (repo # repos) tr'
          = (Some 1, snd ?c' @ [Stdout (FailedToCopy err)])"
        using Inr Some sim rewriteURL_sim[OF sa] tgt vis by (cases ?c') simp
      ultimately show ?thesis using sim by simp
    qed
  qed
qed


lemma mainLoop_sim_Some:
  assumes sa: "sameAnswers w (srcAccessTokenFlag f) (tgtAccessTokenFlag f)
                 w' (srcAccessTokenFlag f') (tgtAccessTokenFlag f')"
    and src: "srcURLFlag f' = srcURLFlag f" and tgt: "tgtURLFlag f' = tgtURLFlag f"
    and vis: "tgtVisibilityFlag f' = tgtVisibilityFlag f" and every: "everyFlag f' = everyFlag f"
    and sig: "sigint w' = sigint w"
    and run: "mainLoop w f tr = Some y"
  shows "\<forall>tr'. length tr' = length tr \<longrightarrow> stdout tr' = stdout tr \<longrightarrow>
           (\<exists>x'. mainLoop w' f' tr' = Some (x', snd y)
                 \<and> length x' = length (fst y) \<and> stdout x' = stdout (fst y))"
proof -
  define P where "P = (\<lambda>w0 f0 tr y. w0 = w \<longrightarrow> f0 = f \<longrightarrow>
     (\<forall>tr'. length tr' = length tr \<longrightarrow> stdout tr' = stdout tr \<longrightarrow>
           (\<exists>x'. mainLoop w' f' tr' = Some (x', snd y)
                 \<and> length x' = length (fst y) \<and> stdout x' = stdout (fst y))))"
  have dn: "\<And>n. Done w' n = Done w n"
    using sig by (simp add: Done_def)
  have "P w f tr y"
  proof (rule mainLoop.raw_induct[where P = P, OF _ run], goal_cases)
    case (1 lp w0 f0 tr y)
    note IH = 1(1) and step = 1(2)
    show ?case
      unfolding P_def
    proof (intro impI allI)
      fix tr'
      assume w0: "w0 = w" and f0: "f0 = f"
        and len: "length tr' = length tr" and out: "stdout tr' = stdout tr"
      let ?l = "listRepos w (tr @ [Stdout (ListingRepos (srcURLFlag f))]) (srcURLFlag f)
                  (srcAccessTokenFlag f)"
      let ?l' = "listRepos w' (tr' @ [Stdout (ListingRepos (srcURLFlag f))]) (srcURLFlag f)
                  (srcAccessTokenFlag f')"
      have lsim: "sameRun ?l ?l'"
        by (rule listRepos_sim[OF sa]) (use len out in simp_all)
      show "\<exists>x'. mainLoop w' f' tr' = Some (x', snd y)
                 \<and> length x' = length (fst y) \<and> stdout x' = stdout (fst y)"
      proof (cases ?l)
        case None
        then show ?thesis using step w0 f0 by simp
      next
        case (Some res)
        obtain r trl where res: "res = (r, trl)" by (cases res)
        obtain trl' where l': "?l' = Some (r, trl')" and
          ll: "length trl' = length trl" and lo: "stdout trl' = stdout trl"
          using lsim Some res by (auto simp: sameRun_def)
        show ?thesis
        proof (cases r)
          case (Inl err)
          then have y: "y = (trl @ [Stdout (FailedToList err)], 1)"
            using step w0 f0 Some res by simp
          have "mainLoop w' f' tr' = Some (trl' @ [Stdout (FailedToList err)], 1)"
            using l' Inl src by (subst mainLoop.simps) simp
          then show ?thesis using y ll lo by simp
        next
          case (Inr repos)
          let ?c = "copyRepos w f repos (trl @ [Stdout (CopyingRepos (length repos))])"
          let ?c' = "copyRepos w' f' repos (trl' @ [Stdout (CopyingRepos (length repos))])"
          have csim: "fst ?c' = fst ?c \<and> length (snd ?c') = length (snd ?c)
              \<and> stdout (snd ?c') = stdout (snd ?c)"
            by (rule copyRepos_sim[OF sa tgt vis]) (use ll lo in simp_all)
          obtain c trp where c: "?c = (c, trp)" by (cases ?c)
          obtain trp' where c': "?c' = (c, trp')" and
            pl: "length trp' = length trp" and po: "stdout trp' = stdout trp"
            using csim c by (cases ?c') simp
          let ?wait = "[Stdout (ProcessComplete (everyFlag f)), Call (Wait_call (everyFlag f))]"
          show ?thesis
          proof (cases c)
            case (Some code)
            then have y: "y = (trp, code)"
              using step w0 f0 \<open>?l = Some res\<close> res Inr c by simp
            have "mainLoop w' f' tr' = Some (trp', code)"
              using l' Inr c' Some src by (subst mainLoop.simps) simp
            then show ?thesis using y pl po by simp
          next
            case None
            show ?thesis
            proof (cases "everyFlag f = 0")
              case True
              then have y: "y = (trp, 0)"
                using step w0 f0 \<open>?l = Some res\<close> res Inr c None by simp
              have "mainLoop w' f' tr' = Some (trp', 0)"
                using l' Inr c' None True src every by (subst mainLoop.simps) simp
              then show ?thesis using y pl po by simp
            next
              case False
              show ?thesis
              proof (cases "Done w (Suc (length trp))")
                case True
                then have y: "y = (trp @ ?wait @ [Stdout ContextClosed], 0)"
                  using step w0 f0 \<open>?l = Some res\<close> res Inr c None False by simp
                have "mainLoop w' f' tr' = Some (trp' @ ?wait @ [Stdout ContextClosed], 0)"
                  using l' Inr c' None False True src every dn pl
                  by (subst mainLoop.simps) simp
                then show ?thesis using y pl po by (simp add: stdout_append)
              next
                case nd: False
                then have "lp w f (trp @ ?wait @ [Stdout WaitComplete]) = Some y"
                  using step w0 f0 \<open>?l = Some res\<close> res Inr c None False by simp
                then have "P w f (trp @ ?wait @ [Stdout WaitComplete]) y"
                  by (rule IH)
                then have "\<forall>tr'. length tr' = length (trp @ ?wait @ [Stdout WaitComplete]) \<longrightarrow>
                    stdout tr' = stdout (trp @ ?wait @ [Stdout WaitComplete]) \<longrightarrow>
                    (\<exists>x'. mainLoop w' f' tr' = Some (x', snd y)
                       \<and> length x' = length (fst y) \<and> stdout x' = stdout (fst y))"
                  unfolding P_def by simp
                from this[rule_format, of "trp' @ ?wait @ [Stdout WaitComplete]"] obtain x' where
                  x': "mainLoop w' f' (trp' @ ?wait @ [Stdout WaitComplete]) = Some (x', snd y)"
                    "length x' = length (fst y)" "stdout x' = stdout (fst y)"
                  using pl po by (auto simp: stdout_append)
                have "mainLoop w' f' tr' = mainLoop w' f' (trp' @ ?wait @ [Stdout WaitComplete])"
                  using l' Inr c' None False nd src every dn pl
                  by (subst mainLoop.simps) simp
                then show ?thesis using x' by simp
              qed
            qed
          qed
        qed
      qed
    qed
  qed
  then show ?thesis unfolding P_def by simp
qed

lemma sameAnswers_sym: "sameAnswers w s t w' s' t' \<Longrightarrow> sameAnswers w' s' t' w s t"
  by (simp add: sameAnswers_def)

lemma mainLoop_sim:
  assumes sa: "sameAnswers w (srcAccessTokenFlag f) (tgtAccessTokenFlag f)
                 w' (srcAccessTokenFlag f') (tgtAccessTokenFlag f')"
    and src: "srcURLFlag f' = srcURLFlag f" and tgt: "tgtURLFlag f' = tgtURLFlag f"
    and vis: "tgtVisibilityFlag f' = tgtVisibilityFlag f" and every: "everyFlag f' = everyFlag f"
    and sig: "sigint w' = sigint w"
  shows "printedBy (mainLoop w' f' []) = printedBy (mainLoop w f [])"
proof (cases "mainLoop w f []")
  case None
  have "mainLoop w' f' [] = None"
  proof (rule ccontr)
    assume "mainLoop w' f' [] \<noteq> None"
    then obtain y where y: "mainLoop w' f' [] = Some y" by auto
    have "\<exists>x. mainLoop w f [] = Some (x, snd y)
        \<and> length x = length (fst y) \<and> stdout x = stdout (fst y)"
      using mainLoop_sim_Some[where w = w' and f = f' and w' = w and f' = f,
          OF sameAnswers_sym[OF sa] src[symmetric] tgt[symmetric] vis[symmetric]
             every[symmetric] sig[symmetric] y]
      by simp
    then show False using None by simp
  qed
  then show ?thesis using None by simp
next
  case (Some y)
  then show ?thesis
    using mainLoop_sim_Some[where w = w and f = f and w' = w' and f' = f',
        OF sa src tgt vis every sig Some]
    by (cases y) (auto simp: printedBy_def)
qed

lemma ctxBlind_sameAnswers: "ctxBlind w \<Longrightarrow> sameAnswers w s t (w\<lparr>sigint := k\<rparr>) s t"
  unfolding ctxBlind_def sameAnswers_def by simp

section \<open>Credentials\<close>

text \<open>
  Claim C3, as amended. Outside the \<^verbatim>\<open>-print-systemd-unit\<close> mode, what
  \<^verbatim>\<open>main\<close> prints and the code it exits with do not depend on the two tokens:
  for any two pairs of non-empty tokens to which the outside gives the same
  answers, the printed lines and the exit code are the same (and either both runs
  end or neither does). The tokens reach the outside only as the password of the
  clone and of the push and as the token of the API client.
\<close>

theorem C3_printed_independent_of_tokens:
  assumes "sameAnswers w s t w s' t'"
    and "s \<noteq> []" and "t \<noteq> []" and "s' \<noteq> []" and "t' \<noteq> []"
    and "\<not> printSystemdUnitFlag f"
  shows "printedBy (main w (f\<lparr>srcAccessTokenFlag := s', tgtAccessTokenFlag := t'\<rparr>))
       = printedBy (main w (f\<lparr>srcAccessTokenFlag := s, tgtAccessTokenFlag := t\<rparr>))"
proof -
  let ?f = "f\<lparr>srcAccessTokenFlag := s, tgtAccessTokenFlag := t\<rparr>"
  let ?f' = "f\<lparr>srcAccessTokenFlag := s', tgtAccessTokenFlag := t'\<rparr>"
  have loop: "printedBy (mainLoop w ?f' []) = printedBy (mainLoop w ?f [])"
    by (rule mainLoop_sim) (use assms(1) in simp_all)
  show ?thesis
    using assms(2-6) loop by (simp add: main_def Let_def)
qed

theorem C3_printed_independent_of_tokens_witness:
  "sameAnswers acmeWorld ''s3cr3t'' ''t0k3n'' acmeWorld ''0ther'' ''an0ther''
   \<and> \<not> printSystemdUnitFlag acmeFlags
   \<and> printedBy (main acmeWorld
        (acmeFlags\<lparr>srcAccessTokenFlag := ''0ther'', tgtAccessTokenFlag := ''an0ther''\<rparr>))
     = printedBy (main acmeWorld
        (acmeFlags\<lparr>srcAccessTokenFlag := ''s3cr3t'', tgtAccessTokenFlag := ''t0k3n''\<rparr>))
   \<and> printedBy (main acmeWorld
        (acmeFlags\<lparr>srcAccessTokenFlag := ''s3cr3t'', tgtAccessTokenFlag := ''t0k3n''\<rparr>))
     = Some ([ListingRepos ''https://github.com/acme'', CopyingRepos 3,
              Copying ''https://github.com/acme/a'' ''https://git.enterprise.test/widgets/a'',
              Copying ''https://github.com/acme/b'' ''https://git.enterprise.test/widgets/b'',
              Copying ''https://github.com/acme/c'' ''https://git.enterprise.test/widgets/c''], 0)"
proof -
  have h1: "sameAnswers acmeWorld ''s3cr3t'' ''t0k3n'' acmeWorld ''0ther'' ''an0ther''"
    by (simp add: sameAnswers_def acmeWorld_def goWorld_def)
  have h2: "''s3cr3t'' \<noteq> []" and h3: "''t0k3n'' \<noteq> []"
    and h4: "''0ther'' \<noteq> []" and h5: "''an0ther'' \<noteq> []"
    by simp_all
  have h6: "\<not> printSystemdUnitFlag acmeFlags"
    by (simp add: acmeFlags_def)
  have run: "printedBy (main acmeWorld
        (acmeFlags\<lparr>srcAccessTokenFlag := ''s3cr3t'', tgtAccessTokenFlag := ''t0k3n''\<rparr>))
     = Some ([ListingRepos ''https://github.com/acme'', CopyingRepos 3,
              Copying ''https://github.com/acme/a'' ''https://git.enterprise.test/widgets/a'',
              Copying ''https://github.com/acme/b'' ''https://git.enterprise.test/widgets/b'',
              Copying ''https://github.com/acme/c'' ''https://git.enterprise.test/widgets/c''], 0)"
    by code_simp
  show ?thesis
    using C3_printed_independent_of_tokens[OF h1 h2 h3 h4 h5 h6] h1 h6 run by simp
qed

text \<open>
  In the \<^verbatim>\<open>-print-systemd-unit\<close> mode the claim fails: the unit text that
  \<^verbatim>\<open>main\<close> prints holds the command line, with both tokens in it. The unit
  file is embedded from a file that is not among the sources; the template here has
  the one substitution point \<^verbatim>\<open>$CMD\<close>.
\<close>

theorem C3_unit_file_shows_tokens_counterexample:
  "main goWorld (acmeFlags\<lparr>printSystemdUnitFlag := True\<rparr>)
     = Some ([Stdout (Println
         (''ExecStart=/usr/local/bin/copy-github-to-github -src-token s3cr3t''
          @ '' -src-url https://github.com/acme -tgt-token t0k3n''
          @ '' -tgt-url https://git.enterprise.test/widgets -tgt-visibility public''))], 0)
   \<and> srcAccessTokenFlag acmeFlags = ''s3cr3t'' \<and> tgtAccessTokenFlag acmeFlags = ''t0k3n''
   \<and> Contains (''ExecStart=/usr/local/bin/copy-github-to-github -src-token s3cr3t''
          @ '' -src-url https://github.com/acme -tgt-token t0k3n''
          @ '' -tgt-url https://git.enterprise.test/widgets -tgt-visibility public'') ''s3cr3t''
   \<and> Contains (''ExecStart=/usr/local/bin/copy-github-to-github -src-token s3cr3t''
          @ '' -src-url https://github.com/acme -tgt-token t0k3n''
          @ '' -tgt-url https://git.enterprise.test/widgets -tgt-visibility public'') ''t0k3n''"
  by code_simp

section \<open>The run loop\<close>

text \<open>
  Claim C9, as amended. Let a pass list and copy without error. With a zero
  interval the loop ends there, with exit code 0. With a non-zero interval the loop
  prints that it will run again and waits: if SIGINT has arrived by the end of the
  wait, it prints that the context is closed and ends with exit code 0; otherwise
  it prints that the wait is complete and starts the next pass. The loop itself
  reads the context nowhere else, and the clone and the push are never given it.
  The listing and the creation of the target repository are given it: in a world
  where these two API calls do not look at it, a pass returns and prints the same
  whenever SIGINT arrives.
\<close>

theorem C9_run_loop:
  assumes "listRepos w (tr @ [Stdout (ListingRepos (srcURLFlag f))]) (srcURLFlag f)
             (srcAccessTokenFlag f) = Some (Inr repos, trl)"
    and "copyRepos w f repos (trl @ [Stdout (CopyingRepos (length repos))]) = (None, trp)"
  shows "(everyFlag f = 0 \<longrightarrow> mainLoop w f tr = Some (trp, 0))
       \<and> (everyFlag f \<noteq> 0 \<and> Done w (Suc (length trp)) \<longrightarrow>
            mainLoop w f tr
              = Some (trp @ [Stdout (ProcessComplete (everyFlag f)),
                             Call (Wait_call (everyFlag f)), Stdout ContextClosed], 0))
       \<and> (everyFlag f \<noteq> 0 \<and> \<not> Done w (Suc (length trp)) \<longrightarrow>
            mainLoop w f tr
              = mainLoop w f (trp @ [Stdout (ProcessComplete (everyFlag f)),
                                     Call (Wait_call (everyFlag f)), Stdout WaitComplete]))
       \<and> (ctxBlind w \<longrightarrow>
            (\<forall>k. observed (listRepos (w\<lparr>sigint := k\<rparr>) tr (srcURLFlag f) (srcAccessTokenFlag f))
                   = observed (listRepos w tr (srcURLFlag f) (srcAccessTokenFlag f))
               \<and> fst (copyRepos (w\<lparr>sigint := k\<rparr>) f repos trl) = fst (copyRepos w f repos trl)
               \<and> stdout (snd (copyRepos (w\<lparr>sigint := k\<rparr>) f repos trl))
                   = stdout (snd (copyRepos w f repos trl))))"
proof -
  have a: "everyFlag f = 0 \<longrightarrow> mainLoop w f tr = Some (trp, 0)"
    using assms by (subst mainLoop.simps) simp
  have b: "everyFlag f \<noteq> 0 \<and> Done w (Suc (length trp)) \<longrightarrow>
            mainLoop w f tr
              = Some (trp @ [Stdout (ProcessComplete (everyFlag f)),
                             Call (Wait_call (everyFlag f)), Stdout ContextClosed], 0)"
    using assms by (subst mainLoop.simps) simp
  have c: "everyFlag f \<noteq> 0 \<and> \<not> Done w (Suc (length trp)) \<longrightarrow>
            mainLoop w f tr
              = mainLoop w f (trp @ [Stdout (ProcessComplete (everyFlag f)),
                                     Call (Wait_call (everyFlag f)), Stdout WaitComplete])"
    using assms by (subst mainLoop.simps) simp
  have d: "ctxBlind w \<longrightarrow>
            (\<forall>k. observed (listRepos (w\<lparr>sigint := k\<rparr>) tr (srcURLFlag f) (srcAccessTokenFlag f))
                   = observed (listRepos w tr (srcURLFlag f) (srcAccessTokenFlag f))
               \<and> fst (copyRepos (w\<lparr>sigint := k\<rparr>) f repos trl) = fst (copyRepos w f repos trl)
               \<and> stdout (snd (copyRepos (w\<lparr>sigint := k\<rparr>) f repos trl))
                   = stdout (snd (copyRepos w f repos trl)))"
  proof (intro impI allI)
    fix k
    assume blind: "ctxBlind w"
    have sa: "sameAnswers w (srcAccessTokenFlag f) (tgtAccessTokenFlag f)
                (w\<lparr>sigint := k\<rparr>) (srcAccessTokenFlag f) (tgtAccessTokenFlag f)"
      using blind by (rule ctxBlind_sameAnswers)
    have l: "observed (listRepos (w\<lparr>sigint := k\<rparr>) tr (srcURLFlag f) (srcAccessTokenFlag f))
        = observed (listRepos w tr (srcURLFlag f) (srcAccessTokenFlag f))"
      by (rule sameRun_observed, rule listRepos_sim[OF sa]) simp_all
    have r: "fst (copyRepos (w\<lparr>sigint := k\<rparr>) f repos trl) = fst (copyRepos w f repos trl)
        \<and> length (snd (copyRepos (w\<lparr>sigint := k\<rparr>) f repos trl))
            = length (snd (copyRepos w f repos trl))
        \<and> stdout (snd (copyRepos (w\<lparr>sigint := k\<rparr>) f repos trl))
            = stdout (snd (copyRepos w f repos trl))"
      by (rule copyRepos_sim[OF sa]) simp_all
    show "observed (listRepos (w\<lparr>sigint := k\<rparr>) tr (srcURLFlag f) (srcAccessTokenFlag f))
                   = observed (listRepos w tr (srcURLFlag f) (srcAccessTokenFlag f))
               \<and> fst (copyRepos (w\<lparr>sigint := k\<rparr>) f repos trl) = fst (copyRepos w f repos trl)
               \<and> stdout (snd (copyRepos (w\<lparr>sigint := k\<rparr>) f repos trl))
                   = stdout (snd (copyRepos w f repos trl))"
      using l r by simp
  qed
  show ?thesis using a b c d by blast
qed

theorem C9_run_loop_witness:
  "ctxBlind waitWorld
   \<and> everyFlag everyFlags \<noteq> 0
   \<and> \<not> Done waitWorld 8 \<and> Done waitWorld 15 \<and> Done waitWorld 18
   \<and> mainLoop waitWorld everyFlags []
     = Some (passEvents False
             @ [pushEvent, Stdout (ProcessComplete 600000000000),
                Call (Wait_call 600000000000), Stdout WaitComplete]
             @ passEvents True
             @ [pushEvent, Stdout (ProcessComplete 600000000000),
                Call (Wait_call 600000000000), Stdout ContextClosed], 0)"
proof -
  let ?a = "\<lparr>Name = ''a'', URL = ''https://github.com/acme/a''\<rparr>"
  let ?d = "600000000000 :: int"
  let ?l1 = "[Stdout (ListingRepos (srcURLFlag everyFlags))]"
  let ?p1 = "passEvents False @ [pushEvent]"
  let ?tr = "?p1 @ [Stdout (ProcessComplete (everyFlag everyFlags)),
                    Call (Wait_call (everyFlag everyFlags)), Stdout WaitComplete]"
  let ?p2 = "?tr @ passEvents True @ [pushEvent]"
  have blind: "ctxBlind waitWorld"
    by (simp add: ctxBlind_def waitWorld_def goWorld_def)
  have every: "everyFlag everyFlags \<noteq> 0" "everyFlag everyFlags = ?d"
    by (simp_all add: everyFlags_def acmeFlags_def)
  have dn: "\<not> Done waitWorld 8" "Done waitWorld 15" "Done waitWorld 18"
    by (simp_all add: Done_def waitWorld_def goWorld_def)
  have listed1: "listRepos waitWorld ([] @ [Stdout (ListingRepos (srcURLFlag everyFlags))])
      (srcURLFlag everyFlags) (srcAccessTokenFlag everyFlags) = Some (Inr [?a], ?l1)"
    by code_simp
  have copied1: "copyRepos waitWorld everyFlags [?a]
      (?l1 @ [Stdout (CopyingRepos (length [?a]))]) = (None, ?p1)"
    by code_simp
  have len1: "Suc (length ?p1) = 8"
    by code_simp
  have listed2: "listRepos waitWorld (?tr @ [Stdout (ListingRepos (srcURLFlag everyFlags))])
      (srcURLFlag everyFlags) (srcAccessTokenFlag everyFlags)
      = Some (Inr [?a], ?tr @ ?l1)"
    by code_simp
  have copied2: "copyRepos waitWorld everyFlags [?a]
      ((?tr @ ?l1) @ [Stdout (CopyingRepos (length [?a]))]) = (None, ?p2)"
    by code_simp
  have len2: "Suc (length ?p2) = 18"
    by code_simp
  have first: "mainLoop waitWorld everyFlags [] = mainLoop waitWorld everyFlags ?tr"
    using C9_run_loop[OF listed1 copied1] every(1) dn(1) unfolding len1 by blast
  have second: "mainLoop waitWorld everyFlags ?tr
      = Some (?p2 @ [Stdout (ProcessComplete (everyFlag everyFlags)),
                     Call (Wait_call (everyFlag everyFlags)), Stdout ContextClosed], 0)"
    using C9_run_loop[OF listed2 copied2] every(1) dn(3) unfolding len2 by blast
  show ?thesis
    using blind every dn first second by simp
qed

text \<open>
  The claim that cancellation is seen at the wait only fails where the API honours
  the context. With SIGINT during the wait the process ends cleanly after the pass.
  With SIGINT during the clone, the clone still ends, but
  \<^verbatim>\<open>Repositories.Create\<close> gets the cancelled context and fails: the mirror is
  aborted and the process exits with code 1.
\<close>

theorem C9_cancelled_create_counterexample:
  "main (cancelWorld 8) everyFlags
     = Some (passEvents False
             @ [pushEvent, Stdout (ProcessComplete 600000000000),
                Call (Wait_call 600000000000), Stdout ContextClosed], 0)
   \<and> main (cancelWorld 4) everyFlags
     = Some (passEvents True
             @ [Stdout (FailedToCopy (Wrapped ''failed to create target repo: ''
                                        (ErrorString ''context canceled'')))], 1)"
  by code_simp

end
